theory Spec2Isabelle
  imports Complex_Main
begin

section \<open>Conservation Atlas: queue consumer, extraction job and event clustering\<close>

text \<open>
  The development embeds the asynchronous pipeline of the repository: the consumer loop
  (\<^verbatim>\<open>workers/consumer.ts\<close>), the queue client (\<^verbatim>\<open>sqsService.ts\<close>), the job envelope
  (\<^verbatim>\<open>queueMessages.ts\<close>), the geolocation validator (\<^verbatim>\<open>geoValidation.ts\<close>), the
  extraction job (\<^verbatim>\<open>extract.job.ts\<close>) and the clustering engine (\<^verbatim>\<open>eventCluster.ts\<close>).

  JavaScript numbers are modelled as reals: rounding of IEEE doubles is not modelled, and the
  one place where the source can produce NaN (the haversine distance) returns \<open>None\<close>.
  Dates are integers, milliseconds since the epoch. Strings are lists of 8-bit characters;
  case mapping and the character classes of regular expressions cover ASCII.
\<close>

subsection \<open>Retry backoff of the consumer\<close>


definition backoffBase :: "real \<Rightarrow> real \<Rightarrow> real" where
  "backoffBase BASE attempt = BASE * 2 powr (max 0 (attempt - 1))"

definition computeBackoffSeconds :: "real \<Rightarrow> real \<Rightarrow> real \<Rightarrow> real" where
  "computeBackoffSeconds BASE rnd attempt =
     (let base = backoffBase BASE attempt;
          jitter = rnd * 0.2 * base
      in min (base + jitter) (15 * 60))"

subsection \<open>Clustering engine: text similarity\<close>

text \<open>
  \<^verbatim>\<open>tokenize\<close>: lower-case, replace every character outside \<^verbatim>\<open>[\w\s]\<close> by a space, split
  at runs of white space, drop words of at most two characters, drop stop words.
  \<^verbatim>\<open>split(/\s+/)\<close> keeps the empty strings before a leading and after a trailing separator,
  and \<open>splitWs\<close> does too (the length filter removes them afterwards).
\<close>

definition UPPER :: string where "UPPER = ''ABCDEFGHIJKLMNOPQRSTUVWXYZ''"
definition LOWER :: string where "LOWER = ''abcdefghijklmnopqrstuvwxyz''"
definition DIGITS :: string where "DIGITS = ''0123456789''"

definition toLowerCase :: "string \<Rightarrow> string" where
  "toLowerCase s =
     map (\<lambda>c. case map_of (zip UPPER LOWER) c of None \<Rightarrow> c | Some l \<Rightarrow> l) s"

definition isWordChar :: "char \<Rightarrow> bool" where
  "isWordChar c = (c \<in> set (UPPER @ LOWER @ DIGITS @ ''_''))"

definition isSpaceChar :: "char \<Rightarrow> bool" where
  "isSpaceChar c = (c \<in> set [CHR '' '', CHR 0x09, CHR 0x0A, CHR 0x0B, CHR 0x0C, CHR 0x0D])"

definition stripPunctuation :: "string \<Rightarrow> string" where
  "stripPunctuation s = map (\<lambda>c. if isWordChar c \<or> isSpaceChar c then c else CHR '' '') s"

function splitWs :: "string \<Rightarrow> string \<Rightarrow> string list" where
  "splitWs acc [] = [rev acc]"
| "splitWs acc (c # cs) =
     (if isSpaceChar c then rev acc # splitWs [] (dropWhile isSpaceChar cs)
      else splitWs (c # acc) cs)"
  by pat_completeness auto
termination
  by (relation "measure (\<lambda>(acc, s). length s)") (auto simp: length_dropWhile_le less_Suc_eq_le)

definition STOP_WORDS :: "string list" where
  "STOP_WORDS =
    [''the'', ''a'', ''an'', ''and'', ''or'', ''but'', ''in'', ''on'', ''at'', ''to'', ''for'',
     ''of'', ''with'', ''by'', ''from'', ''as'', ''is'', ''was'', ''are'', ''were'', ''been'',
     ''be'', ''have'', ''has'', ''had'', ''do'', ''does'', ''did'', ''will'', ''would'', ''could'',
     ''should'', ''may'', ''might'', ''must'', ''shall'', ''can'', ''need'', ''this'', ''that'',
     ''these'', ''those'', ''than'', ''when'', ''where'', ''which'', ''who'', ''whom'', ''whose'']"

definition tokenize :: "string \<Rightarrow> string list" where
  "tokenize text =
     filter (\<lambda>w. w \<notin> set STOP_WORDS)
       (filter (\<lambda>w. 2 < length w)
          (splitWs [] (stripPunctuation (toLowerCase text))))"

text \<open>
  \<^verbatim>\<open>calculateTextSimilarity\<close>: the Jaccard index of the two word sets. A JavaScript \<^verbatim>\<open>Set\<close> is a
  list without duplicates; only its size is used.
\<close>

definition calculateTextSimilarity :: "string \<Rightarrow> string \<Rightarrow> real" where
  "calculateTextSimilarity text1 text2 =
     (let words1 = remdups (tokenize text1);
          words2 = remdups (tokenize text2)
      in if length words1 = 0 \<and> length words2 = 0 then 1
         else if length words1 = 0 \<or> length words2 = 0 then 0
         else let intersection = remdups (filter (\<lambda>w. w \<in> set words2) words1);
                  union = remdups (words1 @ words2)
              in real (length intersection) / real (length union))"

subsection \<open>Clustering engine: great-circle distance\<close>

text \<open>
  \<^verbatim>\<open>Math.atan2\<close> on finite arguments. \<^verbatim>\<open>Math.sqrt\<close> of a negative number is NaN, so the
  haversine distance is NaN as soon as the local \<^verbatim>\<open>a\<close> leaves \<open>[0, 1]\<close>; the result is an
  option and \<open>None\<close> stands for NaN.
\<close>

definition atan2 :: "real \<Rightarrow> real \<Rightarrow> real" where
  "atan2 y x =
     (if 0 < x then arctan (y / x)
      else if x < 0 then (if 0 \<le> y then arctan (y / x) + pi else arctan (y / x) - pi)
      else if 0 < y then pi / 2
      else if y < 0 then - (pi / 2)
      else 0)"

definition toRad :: "real \<Rightarrow> real" where
  "toRad deg = deg * (pi / 180)"

definition haversine_a :: "real \<Rightarrow> real \<Rightarrow> real \<Rightarrow> real \<Rightarrow> real" where
  "haversine_a lat1 lon1 lat2 lon2 =
     (let dLat = toRad (lat2 - lat1);
          dLon = toRad (lon2 - lon1)
      in (sin (dLat / 2))\<^sup>2 + cos (toRad lat1) * cos (toRad lat2) * (sin (dLon / 2))\<^sup>2)"

definition calculateDistanceKm :: "real \<Rightarrow> real \<Rightarrow> real \<Rightarrow> real \<Rightarrow> real option" where
  "calculateDistanceKm lat1 lon1 lat2 lon2 =
     (let R = 6371;
          a = haversine_a lat1 lon1 lat2 lon2
      in if a < 0 \<or> 1 < a then None
         else let c = 2 * atan2 (sqrt a) (sqrt (1 - a)) in Some (R * c))"

subsection \<open>Clustering engine: data\<close>

datatype cluster_action = New | Merged | Duplicate

record ClusterResult =
  action :: cluster_action
  primaryEventId :: string
  mergedEventIds :: "string list"
  confidenceBoost :: real
  sourceCount_r :: int

record EventForClustering =
  id_c :: string
  title :: string
  eventTypePrimary :: string
  severityLevel :: int
  confidenceExtraction :: real
  country :: string
  admin1 :: "string option"
  latitude :: "real option"
  longitude :: "real option"
  startDate :: "int option"
  summaryShort :: string
  sourceCount :: int
  createdAt :: int

text \<open>
  The rows of the store, as Prisma returns them. The Prisma schema is not part of the
  sources; the engine reads a coordinate column through \<^verbatim>\<open>parseFloat(x.toString())\<close>, which
  fits a JavaScript number and a \<^verbatim>\<open>Decimal\<close> object alike, so a column value carries its
  representation: a \<^verbatim>\<open>Decimal\<close> object is truthy even when it is zero, a number is not.
\<close>

datatype db_number = DbFloat real | DbDecimal real

fun db_value :: "db_number \<Rightarrow> real" where
  "db_value (DbFloat x) = x"
| "db_value (DbDecimal x) = x"

fun db_truthy :: "db_number option \<Rightarrow> bool" where
  "db_truthy None = False"
| "db_truthy (Some (DbFloat x)) = (x \<noteq> 0)"
| "db_truthy (Some (DbDecimal x)) = True"

record event_row =
  db_id :: string
  db_title :: string
  db_eventTypePrimary :: string
  db_severityLevel :: int
  db_confidenceExtraction :: "real option"
  db_country :: string
  db_admin1 :: "string option"
  db_latitude :: "db_number option"
  db_longitude :: "db_number option"
  db_startDate :: "int option"
  db_summaryShort :: string
  db_sourceCount :: int
  db_createdAt :: int
  db_updatedAt :: int
  db_status :: string
  db_mergedIntoId :: "string option"

record source_link =
  es_id :: string
  es_eventId :: "string option"

record merge_row =
  primary_event_id :: string
  merged_event_id :: string
  similarity_score :: real
  merged_at :: int

record store =
  events :: "event_row list"
  eventSources :: "source_link list"
  event_merges :: "merge_row list"

datatype cluster_error = EventNotFound string | RecordNotFound string

definition TIME_WINDOW_HOURS :: int where "TIME_WINDOW_HOURS = 72"
definition MAX_DISTANCE_KM :: real where "MAX_DISTANCE_KM = 50"
definition MIN_SIMILARITY_SCORE :: real where "MIN_SIMILARITY_SCORE = 0.7"
definition SOURCE_CONFIDENCE_BOOST :: real where "SOURCE_CONFIDENCE_BOOST = 0.05"
definition MAX_BOOSTED_CONFIDENCE :: real where "MAX_BOOSTED_CONFIDENCE = 0.98"

text \<open>JavaScript truthiness of a nullable string: neither null nor empty.\<close>

fun truthy_str :: "string option \<Rightarrow> bool" where
  "truthy_str None = False"
| "truthy_str (Some s) = (s \<noteq> [])"

definition mapToClusteringEvent :: "event_row \<Rightarrow> EventForClustering" where
  "mapToClusteringEvent event =
     \<lparr> id_c = db_id event,
       title = db_title event,
       eventTypePrimary = db_eventTypePrimary event,
       severityLevel = db_severityLevel event,
       confidenceExtraction =
         (case db_confidenceExtraction event of None \<Rightarrow> 0.5 | Some v \<Rightarrow> v),
       country = db_country event,
       admin1 = db_admin1 event,
       latitude =
         (if db_truthy (db_latitude event) then map_option db_value (db_latitude event) else None),
       longitude =
         (if db_truthy (db_longitude event) then map_option db_value (db_longitude event) else None),
       startDate = db_startDate event,
       summaryShort = db_summaryShort event,
       sourceCount = db_sourceCount event,
       createdAt = db_createdAt event \<rparr>"

definition loadEventForClustering :: "store \<Rightarrow> string \<Rightarrow> EventForClustering option" where
  "loadEventForClustering st eventId =
     map_option mapToClusteringEvent (find (\<lambda>r. db_id r = eventId) (events st))"

subsection \<open>Clustering engine: candidate search and similarity\<close>

text \<open>
  Truthiness of a nullable number (\<^verbatim>\<open>null\<close> and \<open>0\<close> are falsy) and its value in arithmetic
  (\<^verbatim>\<open>null\<close> counts as \<open>0\<close>; the reads below are all guarded by the truthiness test).
\<close>

fun truthy_num :: "real option \<Rightarrow> bool" where
  "truthy_num None = False"
| "truthy_num (Some x) = (x \<noteq> 0)"

fun js_num :: "real option \<Rightarrow> real" where
  "js_num None = 0"
| "js_num (Some x) = x"

fun db_parseFloat :: "db_number option \<Rightarrow> real" where
  "db_parseFloat None = 0"
| "db_parseFloat (Some v) = db_value v"

text \<open>\<^verbatim>\<open>e.latitude && e.longitude\<close>: both coordinates are truthy.\<close>

definition hasCoords :: "EventForClustering \<Rightarrow> bool" where
  "hasCoords e = (truthy_num (latitude e) \<and> truthy_num (longitude e))"

text \<open>
  \<^verbatim>\<open>prisma.event.findMany\<close> of \<^verbatim>\<open>findCandidateMatches\<close>: same type, same country, created inside
  the trailing window, newest first, at most 50. Rows with equal creation time keep the order
  of the table. The window start is 72 hours before the creation time.
\<close>

definition candidateQuery :: "store \<Rightarrow> EventForClustering \<Rightarrow> event_row list" where
  "candidateQuery st event =
     (let timeWindowStart = createdAt event - TIME_WINDOW_HOURS * 3600000
      in take 50
           (sort_key (\<lambda>c. - db_createdAt c)
              (filter (\<lambda>c. db_id c \<noteq> id_c event
                          \<and> db_eventTypePrimary c = eventTypePrimary event
                          \<and> db_country c = country event
                          \<and> timeWindowStart \<le> db_createdAt c)
                 (events st))))"

definition withinMaxDistance :: "EventForClustering \<Rightarrow> event_row \<Rightarrow> bool" where
  "withinMaxDistance event c =
     (if \<not> db_truthy (db_latitude c) \<or> \<not> db_truthy (db_longitude c) then True
      else (case calculateDistanceKm (js_num (latitude event)) (js_num (longitude event))
                   (db_parseFloat (db_latitude c)) (db_parseFloat (db_longitude c)) of
              None \<Rightarrow> False
            | Some distance \<Rightarrow> distance \<le> MAX_DISTANCE_KM))"

definition sameAdmin1 :: "EventForClustering \<Rightarrow> event_row \<Rightarrow> bool" where
  "sameAdmin1 event c =
     (db_admin1 c = admin1 event \<or> \<not> truthy_str (admin1 event) \<or> \<not> truthy_str (db_admin1 c))"

definition findCandidateMatches :: "store \<Rightarrow> EventForClustering \<Rightarrow> EventForClustering list" where
  "findCandidateMatches st event =
     (let candidates = candidateQuery st event
      in if hasCoords event
         then map mapToClusteringEvent (filter (withinMaxDistance event) candidates)
         else map mapToClusteringEvent (filter (sameAdmin1 event) candidates))"

text \<open>
  \<^verbatim>\<open>calculateSimilarity\<close>. \<open>similarityAccum\<close> returns the two accumulators \<^verbatim>\<open>score\<close> and
  \<^verbatim>\<open>weights\<close> as they stand before the final division; \<open>None\<close> is NaN, which only the distance
  can produce. \<open>geoPart\<close> and \<open>temporalPart\<close> are the second and fifth block of the source, each
  giving what it adds to \<^verbatim>\<open>score\<close> and to \<^verbatim>\<open>weights\<close>.
\<close>

definition geoPart :: "EventForClustering \<Rightarrow> EventForClustering \<Rightarrow> (real \<times> real) option" where
  "geoPart event1 event2 =
     (if hasCoords event1 \<and> hasCoords event2
      then (case calculateDistanceKm (js_num (latitude event1)) (js_num (longitude event1))
                   (js_num (latitude event2)) (js_num (longitude event2)) of
              None \<Rightarrow> None
            | Some distance \<Rightarrow> Some (max 0 (1 - distance / MAX_DISTANCE_KM) * 0.3, 0.3))
      else if truthy_str (admin1 event1) \<and> truthy_str (admin1 event2)
              \<and> admin1 event1 = admin1 event2
      then Some (0.2, 0.3)
      else Some (0, 0.3))"

definition temporalPart :: "EventForClustering \<Rightarrow> EventForClustering \<Rightarrow> real \<times> real" where
  "temporalPart event1 event2 =
     (case (startDate event1, startDate event2) of
        (Some t1, Some t2) \<Rightarrow>
          (let daysDiff = \<bar>real_of_int (t1 - t2) / (1000 * 60 * 60 * 24)\<bar>
           in (max 0 (1 - daysDiff / 7) * 0.1, 0.1))
      | _ \<Rightarrow> (0, 0.1))"

definition similarityAccum ::
  "EventForClustering \<Rightarrow> EventForClustering \<Rightarrow> (real \<times> real) option" where
  "similarityAccum event1 event2 =
     (case geoPart event1 event2 of
        None \<Rightarrow> None
      | Some (geoScore, geoWeight) \<Rightarrow>
          (let typeScore = (if eventTypePrimary event1 = eventTypePrimary event2 then 0.2 else 0);
               titleSimilarity = calculateTextSimilarity (title event1) (title event2);
               summarySimilarity =
                 calculateTextSimilarity (summaryShort event1) (summaryShort event2);
               (temporalScore, temporalWeight) = temporalPart event1 event2
           in Some (typeScore + geoScore + titleSimilarity * 0.25 + summarySimilarity * 0.15
                      + temporalScore,
                    0.2 + geoWeight + 0.25 + 0.15 + temporalWeight)))"

definition calculateSimilarity :: "EventForClustering \<Rightarrow> EventForClustering \<Rightarrow> real option" where
  "calculateSimilarity event1 event2 =
     map_option (\<lambda>(score, weights). if 0 < weights then score / weights else 0)
       (similarityAccum event1 event2)"

subsection \<open>Clustering engine: merge and decision\<close>

text \<open>
  \<^verbatim>\<open>mergeEvents\<close>. The four statements run in one transaction; a Prisma \<^verbatim>\<open>update\<close> of a row
  that does not exist raises and rolls the transaction back. \<open>now\<close> is the clock
  (\<^verbatim>\<open>new Date()\<close>, \<^verbatim>\<open>NOW()\<close>).
\<close>

definition confidenceBoostOf :: "EventForClustering \<Rightarrow> real" where
  "confidenceBoostOf newEvent = real_of_int (sourceCount newEvent) * SOURCE_CONFIDENCE_BOOST"

definition newConfidenceOf :: "EventForClustering \<Rightarrow> EventForClustering \<Rightarrow> real" where
  "newConfidenceOf existing newEvent =
     min (confidenceExtraction existing + confidenceBoostOf newEvent) MAX_BOOSTED_CONFIDENCE"

definition hasEvent :: "event_row list \<Rightarrow> string \<Rightarrow> bool" where
  "hasEvent rows i = (\<exists>r \<in> set rows. db_id r = i)"

definition mergeEvents ::
  "int \<Rightarrow> store \<Rightarrow> EventForClustering \<Rightarrow> EventForClustering
     \<Rightarrow> (cluster_error + ClusterResult) \<times> store" where
  "mergeEvents now st existing newEvent =
     (let newSourceCount = sourceCount existing + sourceCount newEvent;
          confidenceBoost = confidenceBoostOf newEvent;
          newConfidence = newConfidenceOf existing newEvent
      in if \<not> hasEvent (events st) (id_c existing)
         then (Inl (RecordNotFound (id_c existing)), st)
         else if \<not> hasEvent (events st) (id_c newEvent)
         then (Inl (RecordNotFound (id_c newEvent)), st)
         else
           let events1 =
                 map (\<lambda>r. if db_id r = id_c existing
                          then r\<lparr> db_confidenceExtraction := Some newConfidence,
                                  db_sourceCount := newSourceCount,
                                  db_updatedAt := now,
                                  db_severityLevel :=
                                    (if severityLevel existing < severityLevel newEvent
                                     then severityLevel newEvent else db_severityLevel r) \<rparr>
                          else r) (events st);
               sources1 =
                 map (\<lambda>l. if es_eventId l = Some (id_c newEvent)
                          then l\<lparr> es_eventId := Some (id_c existing) \<rparr> else l)
                   (eventSources st);
               events2 =
                 map (\<lambda>r. if db_id r = id_c newEvent
                          then r\<lparr> db_mergedIntoId := Some (id_c existing),
                                  db_status := ''merged'' \<rparr>
                          else r) events1;
               merges1 =
                 event_merges st @
                   [\<lparr> primary_event_id = id_c existing, merged_event_id = id_c newEvent,
                      similarity_score = 0, merged_at = now \<rparr>]
           in (Inr \<lparr> action = Merged, primaryEventId = id_c existing,
                     mergedEventIds = [id_c newEvent], confidenceBoost = confidenceBoost,
                     sourceCount_r = newSourceCount \<rparr>,
               \<lparr> events = events2, eventSources = sources1, event_merges = merges1 \<rparr>))"

text \<open>
  \<^verbatim>\<open>clusterEvent\<close>. \<open>scoreCandidates\<close> is steps 3 and 4 up to the sort: the candidates whose
  similarity is a number at or above the threshold, best first (the sort of the source is
  stable). NaN fails the comparison with the threshold.
\<close>

definition scoreCandidates ::
  "EventForClustering \<Rightarrow> EventForClustering list \<Rightarrow> (EventForClustering \<times> real) list" where
  "scoreCandidates newEvent candidates =
     sort_key (\<lambda>sc. - snd sc)
       (List.map_filter
          (\<lambda>candidate.
             case calculateSimilarity newEvent candidate of
               None \<Rightarrow> None
             | Some similarity \<Rightarrow>
                 if MIN_SIMILARITY_SCORE \<le> similarity then Some (candidate, similarity)
                 else None)
          candidates)"

definition resultNew :: "string \<Rightarrow> EventForClustering \<Rightarrow> ClusterResult" where
  "resultNew eventId newEvent =
     \<lparr> action = New, primaryEventId = eventId, mergedEventIds = [], confidenceBoost = 0,
       sourceCount_r = sourceCount newEvent \<rparr>"

definition clusterEvent ::
  "int \<Rightarrow> store \<Rightarrow> string \<Rightarrow> (cluster_error + ClusterResult) \<times> store" where
  "clusterEvent now st eventId =
     (case loadEventForClustering st eventId of
        None \<Rightarrow> (Inl (EventNotFound eventId), st)
      | Some newEvent \<Rightarrow>
          (let candidates = findCandidateMatches st newEvent
           in if length candidates = 0 then (Inr (resultNew eventId newEvent), st)
              else (case scoreCandidates newEvent candidates of
                      [] \<Rightarrow> (Inr (resultNew eventId newEvent), st)
                    | bestMatch # _ \<Rightarrow> mergeEvents now st (fst bestMatch) newEvent)))"

subsection \<open>Clustering engine: the spec's reading of the score, and sample data\<close>



text \<open>
  Two reports of one wildfire: the same type, country, subdivision, title, summary and start
  date, no coordinates, one source each. \<open>ex_rowB\<close> is the newer one.
\<close>

definition ex_rowA :: event_row where
  "ex_rowA =
     \<lparr> db_id = ''A'', db_title = ''Wildfire near Lake'', db_eventTypePrimary = ''wildfire'',
       db_severityLevel = 3, db_confidenceExtraction = Some 0.8, db_country = ''Brazil'',
       db_admin1 = Some ''Para'', db_latitude = None, db_longitude = None,
       db_startDate = Some 0, db_summaryShort = ''Large wildfire burning'',
       db_sourceCount = 1, db_createdAt = 1000, db_updatedAt = 1000,
       db_status = ''active'', db_mergedIntoId = None \<rparr>"

definition ex_rowB :: event_row where
  "ex_rowB = ex_rowA \<lparr> db_id := ''B'', db_createdAt := 2000, db_updatedAt := 2000 \<rparr>"

definition ex_store :: store where
  "ex_store =
     \<lparr> events = [ex_rowA, ex_rowB],
       eventSources = [\<lparr> es_id = ''s1'', es_eventId = Some ''A'' \<rparr>,
                       \<lparr> es_id = ''s2'', es_eventId = Some ''B'' \<rparr>],
       event_merges = [] \<rparr>"

text \<open>
  The same store after one and after two deliveries of the clustering job for \<open>B\<close>, at the
  times 5000 and 6000, and the result both deliveries return but for the source count.
\<close>

definition ex_store1 :: store where
  "ex_store1 =
     \<lparr> events =
         [ex_rowA \<lparr> db_confidenceExtraction := Some 0.85, db_sourceCount := 2,
                    db_updatedAt := 5000 \<rparr>,
          ex_rowB \<lparr> db_mergedIntoId := Some ''A'', db_status := ''merged'' \<rparr>],
       eventSources = [\<lparr> es_id = ''s1'', es_eventId = Some ''A'' \<rparr>,
                       \<lparr> es_id = ''s2'', es_eventId = Some ''A'' \<rparr>],
       event_merges = [\<lparr> primary_event_id = ''A'', merged_event_id = ''B'',
                         similarity_score = 0, merged_at = 5000 \<rparr>] \<rparr>"

definition ex_store2 :: store where
  "ex_store2 =
     \<lparr> events =
         [ex_rowA \<lparr> db_confidenceExtraction := Some 0.9, db_sourceCount := 3,
                    db_updatedAt := 6000 \<rparr>,
          ex_rowB \<lparr> db_mergedIntoId := Some ''A'', db_status := ''merged'' \<rparr>],
       eventSources = [\<lparr> es_id = ''s1'', es_eventId = Some ''A'' \<rparr>,
                       \<lparr> es_id = ''s2'', es_eventId = Some ''A'' \<rparr>],
       event_merges = [\<lparr> primary_event_id = ''A'', merged_event_id = ''B'',
                         similarity_score = 0, merged_at = 5000 \<rparr>,
                       \<lparr> primary_event_id = ''A'', merged_event_id = ''B'',
                         similarity_score = 0, merged_at = 6000 \<rparr>] \<rparr>"

definition ex_merged :: "int \<Rightarrow> ClusterResult" where
  "ex_merged n =
     \<lparr> action = Merged, primaryEventId = ''A'', mergedEventIds = [''B''],
       confidenceBoost = 0.05, sourceCount_r = n \<rparr>"

text \<open>The same pair, the older event extracted with full confidence.\<close>

definition ex_rowSure :: event_row where
  "ex_rowSure = ex_rowA \<lparr> db_confidenceExtraction := Some 1 \<rparr>"

definition ex_storeSure :: store where
  "ex_storeSure = ex_store \<lparr> events := [ex_rowSure, ex_rowB] \<rparr>"






subsection \<open>Geolocation validation\<close>

text \<open>
  The part of an extraction payload that \<^verbatim>\<open>validateGeolocation\<close> reads: the location block, and
  for the marine test the primary event type and the free-text description of the location.
  Coordinates are in GeoJSON order, longitude first.
\<close>

record geometry =
  geom_type :: string
  coordinates :: "(real \<times> real) option"
  precision :: "string option"

record admin_location =
  adm_country :: string
  adm_admin1 :: "string option"
  adm_admin2 :: "string option"
  adm_locality :: "string option"

record ExtractionLocation =
  loc_geometry :: "geometry option"
  loc_admin :: admin_location
  loc_description :: "string option"

record geo_input =
  gi_location :: ExtractionLocation
  gi_event_type_primary :: "string option"

datatype fix_action = Nullify | Swap | UseCentroid

text \<open>
  An issue is a message string in the source, built from the numbers it reports; here it is
  a constructor that carries them.
\<close>

datatype geo_issue =
    InvalidLatitude real
  | InvalidLongitude real
  | MaybeSwapped real real
  | OutsideCountry real real real string
  | InOcean
  | ExactPrecisionWithIssues

record GeoValidationResult =
  valid :: bool
  issues :: "geo_issue list"
  adjustedConfidence :: real
  shouldNullifyCoords :: bool
  suggestedFix :: "(fix_action \<times> string) option"

datatype geo_error = BoundsNotIterable string

definition COUNTRY_BOUNDS :: "(string \<times> (real \<times> real \<times> real \<times> real)) list" where
  "COUNTRY_BOUNDS =
    [(''united states'', (-125, 24, -66, 49)),
     (''usa'', (-125, 24, -66, 49)),
     (''canada'', (-141, 41, -52, 84)),
     (''brazil'', (-74, -34, -32, 6)),
     (''australia'', (112, -44, 154, -10)),
     (''china'', (73, 18, 135, 54)),
     (''india'', (68, 6, 97, 36)),
     (''russia'', (19, 41, 180, 82)),
     (''united kingdom'', (-8, 49, 2, 61)),
     (''france'', (-5, 41, 10, 51)),
     (''germany'', (5, 47, 16, 55)),
     (''japan'', (123, 24, 146, 46)),
     (''indonesia'', (95, -11, 141, 6)),
     (''mexico'', (-118, 14, -86, 33)),
     (''south africa'', (16, -35, 33, -22)),
     (''kenya'', (33, -5, 42, 5)),
     (''tanzania'', (29, -12, 41, -1)),
     (''peru'', (-82, -18, -68, 0)),
     (''colombia'', (-79, -4, -67, 14)),
     (''democratic republic of congo'', (12, -14, 32, 6)),
     (''madagascar'', (43, -26, 51, -12)),
     (''new zealand'', (166, -47, 179, -34)),
     (''norway'', (4, 57, 32, 71)),
     (''sweden'', (11, 55, 24, 69)),
     (''finland'', (20, 59, 32, 70)),
     (''italy'', (6, 36, 19, 47)),
     (''spain'', (-10, 35, 5, 44)),
     (''portugal'', (-10, 36, -6, 42)),
     (''philippines'', (116, 5, 127, 21)),
     (''vietnam'', (102, 8, 110, 24)),
     (''thailand'', (97, 5, 106, 21)),
     (''malaysia'', (99, 0, 120, 8)),
     (''singapore'', (103, 1, 104, 2)),
     (''costa rica'', (-86, 8, -82, 11)),
     (''panama'', (-83, 7, -77, 10)),
     (''ecuador'', (-81, -5, -75, 2)),
     (''chile'', (-76, -56, -66, -17)),
     (''argentina'', (-74, -55, -53, -21)),
     (''egypt'', (24, 22, 37, 32)),
     (''morocco'', (-13, 27, -1, 36)),
     (''nigeria'', (2, 4, 15, 14)),
     (''ethiopia'', (33, 3, 48, 15)),
     (''botswana'', (20, -27, 30, -17)),
     (''namibia'', (11, -29, 25, -17)),
     (''iceland'', (-24, 63, -13, 67)),
     (''greenland'', (-73, 59, -11, 84))]"

text \<open>
  \<^verbatim>\<open>COUNTRY_BOUNDS\<close> is a plain object, so a lookup also finds what it inherits. Of the
  inherited names only \<^verbatim>\<open>constructor\<close> and \<^verbatim>\<open>__proto__\<close> are lower-case; for them the lookup gives
  a truthy value that the array destructuring cannot iterate, which raises a TypeError.
\<close>

definition INHERITED_KEYS :: "string list" where
  "INHERITED_KEYS = [''constructor'', ''__proto__'']"

definition trim :: "string \<Rightarrow> string" where
  "trim s = rev (dropWhile isSpaceChar (rev (dropWhile isSpaceChar s)))"

record country_check =
  matches :: bool
  mismatch :: "geo_issue option"
  severeMismatch :: bool

definition checkCountryCoordinateMatch ::
  "string \<Rightarrow> real \<Rightarrow> real \<Rightarrow> geo_error + country_check" where
  "checkCountryCoordinateMatch countryName lng lat =
     (let normalizedCountry = trim (toLowerCase countryName)
      in case map_of COUNTRY_BOUNDS normalizedCountry of
           None \<Rightarrow>
             if normalizedCountry \<in> set INHERITED_KEYS
             then Inl (BoundsNotIterable normalizedCountry)
             else Inr \<lparr> matches = True, mismatch = None, severeMismatch = False \<rparr>
         | Some (minLng, minLat, maxLng, maxLat) \<Rightarrow>
             let buffer = 2;
                 inBounds = (minLng - buffer \<le> lng \<and> lng \<le> maxLng + buffer
                             \<and> minLat - buffer \<le> lat \<and> lat \<le> maxLat + buffer)
             in if inBounds
                then Inr \<lparr> matches = True, mismatch = None, severeMismatch = False \<rparr>
                else let lngDist = min \<bar>lng - minLng\<bar> \<bar>lng - maxLng\<bar>;
                         latDist = min \<bar>lat - minLat\<bar> \<bar>lat - maxLat\<bar>;
                         totalDist = sqrt (lngDist\<^sup>2 + latDist\<^sup>2)
                     in Inr \<lparr> matches = False,
                              mismatch = Some (OutsideCountry lng lat totalDist countryName),
                              severeMismatch = (30 < totalDist) \<rparr>)"

definition checkIfLikelyOcean :: "real \<Rightarrow> real \<Rightarrow> bool" where
  "checkIfLikelyOcean lng lat =
     (if (140 < lng \<or> lng < -120) \<and> (-60 < lat \<and> lat < 60) then False
      else if -40 < lng \<and> lng < -20 \<and> -30 < lat \<and> lat < 40 then True
      else if 50 < lng \<and> lng < 90 \<and> -40 < lat \<and> lat < 0 then False
      else if lat < -60 then True
      else if 80 < lat then True
      else False)"

text \<open>\<^verbatim>\<open>String.prototype.includes\<close>: the needle occurs as a contiguous part.\<close>

fun isPrefixOf :: "string \<Rightarrow> string \<Rightarrow> bool" where
  "isPrefixOf [] hay = True"
| "isPrefixOf (n # ns) [] = False"
| "isPrefixOf (n # ns) (h # hs) = (n = h \<and> isPrefixOf ns hs)"

fun includes_str :: "string \<Rightarrow> string \<Rightarrow> bool" where
  "includes_str [] needle = (needle = [])"
| "includes_str (h # hs) needle = (isPrefixOf needle (h # hs) \<or> includes_str hs needle)"

fun joinWith :: "string \<Rightarrow> string list \<Rightarrow> string" where
  "joinWith sep [] = []"
| "joinWith sep [x] = x"
| "joinWith sep (x # y # ys) = x @ sep @ joinWith sep (y # ys)"

definition isMarineEventExpected :: "geo_input \<Rightarrow> bool" where
  "isMarineEventExpected extraction =
     (let marineTypes = [''coral_bleaching'', ''oil_spill'', ''pollution''];
          marineKeywords =
            [''ocean'', ''sea'', ''reef'', ''marine'', ''coast'', ''island'', ''bay'', ''gulf'']
      in if (case gi_event_type_primary extraction of
               None \<Rightarrow> False | Some eventType \<Rightarrow> eventType \<in> set marineTypes)
         then True
         else let locationText =
                    toLowerCase
                      (joinWith '' ''
                         (List.map_filter (\<lambda>t. if truthy_str t then t else None)
                            [adm_locality (loc_admin (gi_location extraction)),
                             loc_description (gi_location extraction)]))
              in \<exists>kw \<in> set marineKeywords. includes_str locationText kw)"

text \<open>
  \<^verbatim>\<open>validateGeolocation\<close>. The local variables \<^verbatim>\<open>issues\<close>, \<^verbatim>\<open>adjustedConfidence\<close>,
  \<^verbatim>\<open>shouldNullifyCoords\<close> and \<^verbatim>\<open>suggestedFix\<close> are the fields of the result record, threaded
  through the five checks in the order of the source; \<open>valid\<close> is set at the end.
\<close>

definition geoStart :: GeoValidationResult where
  "geoStart =
     \<lparr> valid = True, issues = [], adjustedConfidence = 1.0, shouldNullifyCoords = False,
       suggestedFix = None \<rparr>"

definition adminOnlyResult :: GeoValidationResult where
  "adminOnlyResult =
     \<lparr> valid = True, issues = [], adjustedConfidence = 0.5, shouldNullifyCoords = False,
       suggestedFix = None \<rparr>"

definition checkRanges :: "real \<Rightarrow> real \<Rightarrow> GeoValidationResult \<Rightarrow> GeoValidationResult" where
  "checkRanges lng lat st =
     (let st1 = (if lat < -90 \<or> 90 < lat
                 then st\<lparr> issues := issues st @ [InvalidLatitude lat],
                          shouldNullifyCoords := True,
                          suggestedFix := Some (Nullify, ''Latitude out of range'') \<rparr>
                 else st)
      in if lng < -180 \<or> 180 < lng
         then st1\<lparr> issues := issues st1 @ [InvalidLongitude lng],
                   shouldNullifyCoords := True,
                   suggestedFix := Some (Nullify, ''Longitude out of range'') \<rparr>
         else st1)"

definition checkSwapped :: "real \<Rightarrow> real \<Rightarrow> GeoValidationResult \<Rightarrow> GeoValidationResult" where
  "checkSwapped lng lat st =
     (if \<not> shouldNullifyCoords st \<and> 90 < \<bar>lat\<bar> \<and> \<bar>lng\<bar> \<le> 90
      then st\<lparr> issues := issues st @ [MaybeSwapped lat lng],
               adjustedConfidence := adjustedConfidence st * 0.3,
               suggestedFix := Some (Swap, ''Lat/lng appear to be swapped'') \<rparr>
      else st)"

definition checkCountry ::
  "string \<Rightarrow> real \<Rightarrow> real \<Rightarrow> GeoValidationResult \<Rightarrow> geo_error + GeoValidationResult" where
  "checkCountry countryName lng lat st =
     (if \<not> shouldNullifyCoords st \<and> countryName \<noteq> []
      then (case checkCountryCoordinateMatch countryName lng lat of
              Inl e \<Rightarrow> Inl e
            | Inr countryCheck \<Rightarrow>
                if \<not> matches countryCheck
                then Inr (st\<lparr> issues := issues st @ (case mismatch countryCheck of
                                                       None \<Rightarrow> [] | Some i \<Rightarrow> [i]),
                              adjustedConfidence := adjustedConfidence st * 0.4,
                              suggestedFix :=
                                (if severeMismatch countryCheck
                                 then Some (UseCentroid,
                                            ''Coordinates don't match country ('' @ countryName
                                              @ '')'')
                                 else suggestedFix st) \<rparr>)
                else Inr st)
      else Inr st)"

definition checkOcean ::
  "geo_input \<Rightarrow> real \<Rightarrow> real \<Rightarrow> GeoValidationResult \<Rightarrow> GeoValidationResult" where
  "checkOcean extraction lng lat st =
     (if \<not> shouldNullifyCoords st
      then (if checkIfLikelyOcean lng lat \<and> \<not> isMarineEventExpected extraction
            then st\<lparr> issues := issues st @ [InOcean],
                     adjustedConfidence := adjustedConfidence st * 0.5 \<rparr>
            else st)
      else st)"

definition checkPrecision :: "geometry \<Rightarrow> GeoValidationResult \<Rightarrow> GeoValidationResult" where
  "checkPrecision geom st =
     (if precision geom = Some ''exact'' \<and> 0 < length (issues st)
      then st\<lparr> issues := issues st @ [ExactPrecisionWithIssues],
               adjustedConfidence := adjustedConfidence st * 0.7 \<rparr>
      else st)"

definition finalConfidence :: "GeoValidationResult \<Rightarrow> GeoValidationResult" where
  "finalConfidence st =
     st\<lparr> adjustedConfidence :=
            (if shouldNullifyCoords st then 0 else max 0.1 (adjustedConfidence st)),
         valid := (length (issues st) = 0) \<rparr>"

definition validateGeolocation :: "geo_input \<Rightarrow> geo_error + GeoValidationResult" where
  "validateGeolocation extraction =
     (case loc_geometry (gi_location extraction) of
        None \<Rightarrow> Inr adminOnlyResult
      | Some geom \<Rightarrow>
          (case coordinates geom of
             None \<Rightarrow> Inr adminOnlyResult
           | Some (lng, lat) \<Rightarrow>
               (case checkCountry (adm_country (loc_admin (gi_location extraction))) lng lat
                       (checkSwapped lng lat (checkRanges lng lat geoStart)) of
                  Inl e \<Rightarrow> Inl e
                | Inr st3 \<Rightarrow>
                    Inr (finalConfidence
                           (checkPrecision geom (checkOcean extraction lng lat st3))))))"

text \<open>
  Sample payloads: the point \<open>(lat = 95, lng = 40)\<close> of the specification, claimed for Kenya,
  and a point in the middle of the Atlantic, marked exact, for a land event in a country the
  table does not know.
\<close>

definition ex_geo_swapped :: geo_input where
  "ex_geo_swapped =
     \<lparr> gi_location =
         \<lparr> loc_geometry =
             Some \<lparr> geom_type = ''Point'', coordinates = Some (40, 95), precision = None \<rparr>,
           loc_admin = \<lparr> adm_country = ''Kenya'', adm_admin1 = None, adm_admin2 = None,
                         adm_locality = None \<rparr>,
           loc_description = None \<rparr>,
       gi_event_type_primary = Some ''wildfire'' \<rparr>"

definition ex_geo_atlantic :: geo_input where
  "ex_geo_atlantic =
     \<lparr> gi_location =
         \<lparr> loc_geometry =
             Some \<lparr> geom_type = ''Point'', coordinates = Some (-30, 10),
                    precision = Some ''exact'' \<rparr>,
           loc_admin = \<lparr> adm_country = ''Atlantis'', adm_admin1 = None, adm_admin2 = None,
                         adm_locality = Some ''Old Forest'' \<rparr>,
           loc_description = None \<rparr>,
       gi_event_type_primary = Some ''wildfire'' \<rparr>"

text \<open>The range test of the first check.\<close>

definition outOfRange :: "real \<Rightarrow> real \<Rightarrow> bool" where
  "outOfRange lng lat = (lat < -90 \<or> 90 < lat \<or> lng < -180 \<or> 180 < lng)"

definition coordsOutOfRange :: "geo_input \<Rightarrow> bool" where
  "coordsOutOfRange extraction =
     (case loc_geometry (gi_location extraction) of
        None \<Rightarrow> False
      | Some geom \<Rightarrow>
          (case coordinates geom of
             None \<Rightarrow> False
           | Some (lng, lat) \<Rightarrow> outOfRange lng lat))"

text \<open>The country name as the bounds table is asked for it.\<close>

definition normalizedCountryOf :: "geo_input \<Rightarrow> string" where
  "normalizedCountryOf extraction =
     trim (toLowerCase (adm_country (loc_admin (gi_location extraction))))"

subsection \<open>Job envelope\<close>

text \<open>
  A parsed message body is a JSON value; an object is the list of its members, each key
  once, as \<^verbatim>\<open>JSON.parse\<close> builds it. \<open>js_get\<close> is a property read: only objects have the
  members read here.
\<close>

datatype json =
    JNull
  | JBool bool
  | JNum real
  | JStr string
  | JArr "json list"
  | JObj "(string \<times> json) list"

fun js_get :: "json \<Rightarrow> string \<Rightarrow> json option" where
  "js_get (JObj members) k = map_of members k"
| "js_get _ k = None"

definition JOB_TYPES :: "string list" where
  "JOB_TYPES =
     [''INGEST'', ''EXTRACT'', ''CLUSTER'', ''GEO_JOIN'', ''ALERTS'', ''VIDEO_BRIEF'',
      ''CLASSROOM_EPISODE'', ''SMOKE_TEST'']"

text \<open>\<^verbatim>\<open>!x || typeof x !== 'object'\<close> lets objects and arrays through.\<close>

fun isObjectValue :: "json \<Rightarrow> bool" where
  "isObjectValue (JObj members) = True"
| "isObjectValue (JArr elements) = True"
| "isObjectValue _ = False"

fun isStringValue :: "json option \<Rightarrow> bool" where
  "isStringValue (Some (JStr s)) = True"
| "isStringValue _ = False"

definition isJobMessage :: "json \<Rightarrow> bool" where
  "isJobMessage x =
     (isObjectValue x
      \<and> js_get x ''version'' = Some (JStr ''job_v1'')
      \<and> (case js_get x ''job_type'' of Some (JStr t) \<Rightarrow> t \<in> set JOB_TYPES | _ \<Rightarrow> False)
      \<and> isStringValue (js_get x ''job_id'')
      \<and> isStringValue (js_get x ''correlation_id'')
      \<and> isStringValue (js_get x ''enqueued_at'')
      \<and> (case js_get x ''payload'' of None \<Rightarrow> False | Some JNull \<Rightarrow> False | Some v \<Rightarrow> True))"

subsection \<open>Queue client: receiving\<close>

text \<open>
  A message as the provider returns it, and as \<^verbatim>\<open>receiveMessages\<close> hands it on. \<^verbatim>\<open>JSON.parse\<close>
  and \<^verbatim>\<open>parseInt\<close> are parameters; \<open>None\<close> from the parser is its SyntaxError. A message
  without a receipt handle or without a body (missing or empty) is skipped.
\<close>

record sqs_message =
  ReceiptHandle :: "string option"
  Body :: "string option"
  MessageId :: "string option"
  ApproximateReceiveCount :: "string option"

record ReceivedMessage =
  receiptHandle :: string
  rawBody :: string
  parsed :: "json option"
  messageId :: "string option"
  approximateReceiveCount :: "real option"

definition parseEnvelope :: "(string \<Rightarrow> json option) \<Rightarrow> string \<Rightarrow> json option" where
  "parseEnvelope JSON_parse body =
     (case JSON_parse body of
        None \<Rightarrow> None
      | Some candidate \<Rightarrow> if isJobMessage candidate then Some candidate else None)"

definition toReceived ::
  "(string \<Rightarrow> json option) \<Rightarrow> (string \<Rightarrow> real) \<Rightarrow> sqs_message \<Rightarrow> ReceivedMessage option" where
  "toReceived JSON_parse parseInt m =
     (if \<not> truthy_str (ReceiptHandle m) \<or> \<not> truthy_str (Body m) then None
      else case (ReceiptHandle m, Body m) of
             (Some h, Some b) \<Rightarrow>
               Some \<lparr> receiptHandle = h,
                      rawBody = b,
                      parsed = parseEnvelope JSON_parse b,
                      messageId = MessageId m,
                      approximateReceiveCount =
                        (if truthy_str (ApproximateReceiveCount m)
                         then map_option parseInt (ApproximateReceiveCount m) else None) \<rparr>
           | _ \<Rightarrow> None)"

definition receiveMessages ::
  "(string \<Rightarrow> json option) \<Rightarrow> (string \<Rightarrow> real) \<Rightarrow> sqs_message list \<Rightarrow> ReceivedMessage list" where
  "receiveMessages JSON_parse parseInt resp = List.map_filter (toReceived JSON_parse parseInt) resp"

subsection \<open>Consumer: handling one message\<close>

text \<open>
  What the consumer does to the queue and to the handlers is a list of actions, in order.
  Logging is left out, and so is the counter \<^verbatim>\<open>activeJobs\<close>, which is incremented before the
  handler and decremented in the \<^verbatim>\<open>finally\<close> block. Calls to the queue provider are taken to
  succeed.
\<close>

datatype consumer_action =
    DeleteMessage string string
  | ChangeVisibility string string real
  | InvokeHandler string json

record js_error =
  err_message :: "string option"
  err_code :: "string option"
  err_name :: "string option"

definition isRetryableError :: "js_error \<Rightarrow> bool" where
  "isRetryableError err =
     (let msg = (case err_message err of None \<Rightarrow> [] | Some m \<Rightarrow> toLowerCase m);
          code = (case err_code err of Some c \<Rightarrow> c
                  | None \<Rightarrow> (case err_name err of Some n \<Rightarrow> n | None \<Rightarrow> []))
      in if includes_str msg ''rate limit'' \<or> includes_str msg ''throttl'' then True
         else if includes_str code ''Throttl'' then True
         else if includes_str msg ''timeout'' \<or> includes_str msg ''timed out'' then True
         else if includes_str msg ''econnreset'' \<or> includes_str msg ''econnrefused'' then True
         else if includes_str code ''ECONNRESET'' \<or> includes_str code ''ETIMEDOUT'' then True
         else if includes_str msg ''temporar'' \<or> includes_str msg ''try again'' then True
         else if includes_str msg ''500'' \<or> includes_str msg ''502''
                 \<or> includes_str msg ''503'' \<or> includes_str msg ''504'' then True
         else if includes_str msg ''overloaded'' \<or> includes_str msg ''capacity'' then True
         else if includes_str msg ''validation'' \<or> includes_str msg ''invalid'' then False
         else True)"

text \<open>
  The environment of the consumer: the handler table (a handler returns normally, \<open>None\<close>,
  or throws), the two retry settings read from the process environment, and the random
  draw of the backoff.
\<close>

record consumer_env =
  handlers :: "string \<Rightarrow> (json \<Rightarrow> js_error option) option"
  MAX_APP_RETRIES :: real
  BASE_RETRY_DELAY_SECONDS :: real
  random :: real

text \<open>
  The table of the source: every job type of the envelope has a handler; all but
  \<open>EXTRACT\<close> are the placeholder that logs and returns.
\<close>

definition notImplementedHandler :: "json \<Rightarrow> js_error option" where
  "notImplementedHandler msg = None"

definition handlerTable ::
  "(json \<Rightarrow> js_error option) \<Rightarrow> string \<Rightarrow> (json \<Rightarrow> js_error option) option" where
  "handlerTable runExtractJob t =
     (if t = ''EXTRACT'' then Some runExtractJob
      else if t \<in> set JOB_TYPES then Some notImplementedHandler
      else None)"

definition requeueSoon :: "string \<Rightarrow> string \<Rightarrow> real \<Rightarrow> consumer_action list" where
  "requeueSoon queue handle delaySeconds =
     [ChangeVisibility queue handle (max 0 (min delaySeconds (12 * 60 * 60)))]"

definition deleteMessage :: "string \<Rightarrow> string \<Rightarrow> consumer_action list" where
  "deleteMessage queue handle = [DeleteMessage queue handle]"

definition handlePoisonMessage :: "string \<Rightarrow> string \<Rightarrow> string \<Rightarrow> consumer_action list" where
  "handlePoisonMessage queue handle body = deleteMessage queue handle"

text \<open>
  \<^verbatim>\<open>(parsed.attempt ?? 0) + 1\<close>, for an envelope whose optional \<^verbatim>\<open>attempt\<close> is a number, as
  its type says.
\<close>

definition nextAttempt :: "json \<Rightarrow> real" where
  "nextAttempt msg = (case js_get msg ''attempt'' of Some (JNum n) \<Rightarrow> n + 1 | _ \<Rightarrow> 0 + 1)"

definition jobTypeOf :: "json \<Rightarrow> string option" where
  "jobTypeOf msg = (case js_get msg ''job_type'' of Some (JStr t) \<Rightarrow> Some t | _ \<Rightarrow> None)"

definition handleMessage ::
  "consumer_env \<Rightarrow> string \<Rightarrow> string \<Rightarrow> string \<Rightarrow> json option \<Rightarrow> real option
     \<Rightarrow> consumer_action list" where
  "handleMessage env queue handle body parsedMsg receiveCount =
     (case parsedMsg of
        None \<Rightarrow> handlePoisonMessage queue handle body
      | Some msg \<Rightarrow>
          (case (case jobTypeOf msg of None \<Rightarrow> None | Some t \<Rightarrow> handlers env t) of
             None \<Rightarrow> deleteMessage queue handle
           | Some handler \<Rightarrow>
               (let attempt = (case receiveCount of Some c \<Rightarrow> c | None \<Rightarrow> nextAttempt msg)
                in InvokeHandler (case jobTypeOf msg of None \<Rightarrow> [] | Some t \<Rightarrow> t) msg #
                   (case handler msg of
                      None \<Rightarrow> deleteMessage queue handle
                    | Some err \<Rightarrow>
                        if \<not> isRetryableError err then deleteMessage queue handle
                        else if MAX_APP_RETRIES env \<le> attempt
                        then requeueSoon queue handle
                               (computeBackoffSeconds (BASE_RETRY_DELAY_SECONDS env)
                                  (random env) attempt)
                        else requeueSoon queue handle
                               (computeBackoffSeconds (BASE_RETRY_DELAY_SECONDS env)
                                  (random env) attempt)))))"

text \<open>
  Sample messages: a body that is no JSON, a body that is JSON but no envelope (the job type
  is unknown), and a toy parser that knows the second and a well-formed third.
\<close>

definition ex_envelope :: json where
  "ex_envelope =
     JObj [(''version'', JStr ''job_v1''), (''job_type'', JStr ''EXTRACT''),
           (''job_id'', JStr ''j1''), (''correlation_id'', JStr ''c1''),
           (''enqueued_at'', JStr ''2026-01-01T00:00:00Z''),
           (''payload'', JObj [(''source_id'', JNum 7)])]"

definition ex_not_envelope :: json where
  "ex_not_envelope =
     JObj [(''version'', JStr ''job_v1''), (''job_type'', JStr ''REINDEX''),
           (''job_id'', JStr ''j2''), (''correlation_id'', JStr ''c2''),
           (''enqueued_at'', JStr ''2026-01-01T00:00:00Z''),
           (''payload'', JObj [])]"

definition ex_parse :: "string \<Rightarrow> json option" where
  "ex_parse body =
     (if body = ''{envelope}'' then Some ex_envelope
      else if body = ''{reindex}'' then Some ex_not_envelope
      else None)"

definition ex_parseInt :: "string \<Rightarrow> real" where
  "ex_parseInt s = (if s = ''1'' then 1 else 3)"

definition ex_response :: "sqs_message list" where
  "ex_response =
     [\<lparr> ReceiptHandle = Some ''h1'', Body = Some ''not json'', MessageId = Some ''m1'',
         ApproximateReceiveCount = Some ''1'' \<rparr>,
      \<lparr> ReceiptHandle = Some ''h2'', Body = Some ''{reindex}'', MessageId = Some ''m2'',
         ApproximateReceiveCount = Some ''3'' \<rparr>]"

definition ex_env :: consumer_env where
  "ex_env =
     \<lparr> handlers = handlerTable (\<lambda>msg. Some \<lparr> err_message = Some ''socket timeout'',
                                               err_code = None, err_name = None \<rparr>),
       MAX_APP_RETRIES = 2, BASE_RETRY_DELAY_SECONDS = 30, random = 0 \<rparr>"

subsection \<open>Extraction job: data\<close>

text \<open>
  The payload the extraction capability returns, with the fields the job reads. A reply
  that fails schema validation is a value of the same type on which the validator is false;
  the job reads none of its fields.
\<close>

record extraction =
  x_title :: string
  x_event_type_primary :: string
  x_event_type_secondary :: "string option"
  x_severity_level :: int
  x_confidence_extraction :: real
  x_confidence_geolocation :: real
  x_location :: ExtractionLocation
  x_summary_short :: string
  x_summary_detailed :: "string option"
  x_is_classroom_safe :: "bool option"
  x_classroom_topic_tags :: "string list option"
  x_start_date :: "string option"
  x_end_date :: "string option"
  x_is_ongoing :: "bool option"
  x_publisher :: "string option"

record SourceRow =
  sr_id :: int
  sr_url :: string
  sr_publisher :: "string option"
  sr_title :: "string option"
  sr_sourceType :: string
  sr_publishedAt :: "int option"
  sr_scrapedAt :: int
  sr_language :: "string option"
  sr_snippet :: "string option"
  sr_credibilityScore :: "real option"

text \<open>
  The tables the job touches: the source rows (\<^verbatim>\<open>prisma.eventSource\<close>, whose key is the decimal
  string of the numeric source id and is kept as the number here), the events it creates
  (the data of \<^verbatim>\<open>tx.event.create\<close> and the generated id), and the stored extractions.
\<close>

record source_row =
  src_row :: SourceRow
  src_eventId :: "string option"
  src_extraction_status :: string

record created_event =
  ce_id :: string
  ce_title :: string
  ce_eventTypePrimary :: string
  ce_eventTypeSecondary :: "string option"
  ce_severityLevel :: int
  ce_confidenceExtraction :: real
  ce_country :: string
  ce_admin1 :: "string option"
  ce_admin2 :: "string option"
  ce_locationName :: "string option"
  ce_latitude :: "real option"
  ce_longitude :: "real option"
  ce_summaryShort :: string
  ce_summaryDetailed :: "string option"
  ce_isClassroomSafe :: bool
  ce_classroomTopicTags :: "string list"
  ce_startDate :: "int option"
  ce_endDate :: "int option"
  ce_isOngoing :: bool
  ce_sourceCount :: int
  ce_primarySourceType :: string
  ce_episodeEligible :: bool

record extraction_row =
  sx_source_id :: int
  sx_event_id :: string
  sx_schema_version :: string
  sx_model :: string
  sx_extraction_json :: extraction
  sx_quality_score :: real
  sx_geo_validation :: GeoValidationResult
  sx_created_at :: int

record llm_request =
  rq_source :: SourceRow
  rq_rawText :: string
  rq_strict :: bool

record cluster_envelope =
  cm_job_id :: string
  cm_correlation_id :: string
  cm_enqueued_at :: int
  cm_event_id :: real

text \<open>
  Everything the job can change: the three tables, the requests sent to the extraction
  capability, and the envelopes sent to the queues.
\<close>

record job_world =
  w_sources :: "source_row list"
  w_events :: "created_event list"
  w_source_extractions :: "extraction_row list"
  w_llm_calls :: "llm_request list"
  w_outbox :: "(string \<times> cluster_envelope) list"

record extract_msg =
  em_job_id :: string
  em_correlation_id :: string
  em_source_id :: int
  em_force_reextract :: "bool option"
  em_model_hint :: "string option"

record ExtractionResult =
  er_eventId :: string
  er_confidence :: real
  er_geoValidation :: GeoValidationResult

datatype job_error =
    SourceNotFound int
  | CapabilityError js_error
  | InvalidExtraction int
  | GeoValidationError geo_error
  | UniqueViolation int
  | QueueUndefined string

text \<open>
  What the job takes from outside: the extraction capability (it returns a payload or
  throws), the compiled schema validator, the source-quality score (a pure function of the
  source type, publisher and credibility score), the model name, the clock, the identifiers
  the database and \<^verbatim>\<open>createJobMessage\<close> generate, and \<^verbatim>\<open>Date\<close> and \<^verbatim>\<open>parseInt\<close>.
\<close>

record job_env =
  callOpenAIForExtraction :: "llm_request \<Rightarrow> js_error + extraction"
  validateEventSchema :: "extraction \<Rightarrow> bool"
  calculateSourceQualityScore :: "string \<Rightarrow> string option \<Rightarrow> real option \<Rightarrow> real"
  OPENAI_MODEL :: string
  je_now :: int
  je_newEventId :: string
  je_newJobId :: string
  je_parseDate :: "string \<Rightarrow> int"
  je_parseInt :: "string \<Rightarrow> real"

definition MAX_SOURCE_CHARS :: nat where "MAX_SOURCE_CHARS = 20000"
definition MIN_SOURCE_CHARS :: nat where "MIN_SOURCE_CHARS = 200"

subsection \<open>Extraction job: database helpers\<close>

definition loadSource :: "job_world \<Rightarrow> int \<Rightarrow> SourceRow option" where
  "loadSource w sourceId =
     (case find (\<lambda>r. sr_id (src_row r) = sourceId) (w_sources w) of
        None \<Rightarrow> None
      | Some source \<Rightarrow>
          Some ((src_row source)
                  \<lparr> sr_credibilityScore :=
                      (if truthy_num (sr_credibilityScore (src_row source))
                       then sr_credibilityScore (src_row source) else None) \<rparr>))"

text \<open>\<^verbatim>\<open>SELECT COUNT(*) FROM source_extractions WHERE source_id = ...\<close>\<close>

definition countExtractions :: "job_world \<Rightarrow> int \<Rightarrow> nat" where
  "countExtractions w sourceId =
     length (filter (\<lambda>x. sx_source_id x = sourceId) (w_source_extractions w))"

definition hasExistingExtraction :: "job_world \<Rightarrow> int \<Rightarrow> bool" where
  "hasExistingExtraction w sourceId = (0 < countExtractions w sourceId)"

definition markSourceStatus :: "job_world \<Rightarrow> int \<Rightarrow> string \<Rightarrow> job_world" where
  "markSourceStatus w sourceId status =
     w\<lparr> w_sources :=
          map (\<lambda>r. if sr_id (src_row r) = sourceId
                   then r\<lparr> src_extraction_status := status \<rparr> else r) (w_sources w) \<rparr>"

definition truncateText :: "string \<Rightarrow> nat \<Rightarrow> string" where
  "truncateText text maxChars =
     (if length text \<le> maxChars then text
      else take maxChars text @ [CHR 0x0A, CHR 0x0A] @ ''[TRUNCATED]'')"

definition categorizePublisher :: "string \<Rightarrow> string" where
  "categorizePublisher publisher =
     (let lower = toLowerCase publisher
      in if includes_str lower ''gov'' \<or> includes_str lower ''department''
            \<or> includes_str lower ''ministry'' then ''gov''
         else if includes_str lower ''wwf'' \<or> includes_str lower ''conservation''
                 \<or> includes_str lower ''wildlife'' then ''ngo''
         else if includes_str lower ''university'' \<or> includes_str lower ''journal''
                 \<or> includes_str lower ''science'' then ''academic''
         else ''news'')"

definition shouldMarkEpisodeEligible :: "extraction \<Rightarrow> real \<Rightarrow> bool" where
  "shouldMarkEpisodeEligible e qualityScore =
     (4 \<le> x_severity_level e
      \<and> 0.75 \<le> x_confidence_extraction e
      \<and> x_is_classroom_safe e = Some True
      \<and> 0.6 \<le> qualityScore)"

definition createdEventData :: "job_env \<Rightarrow> extraction \<Rightarrow> real \<Rightarrow> created_event" where
  "createdEventData env e qualityScore =
     \<lparr> ce_id = je_newEventId env,
       ce_title = x_title e,
       ce_eventTypePrimary = x_event_type_primary e,
       ce_eventTypeSecondary = x_event_type_secondary e,
       ce_severityLevel = x_severity_level e,
       ce_confidenceExtraction = x_confidence_extraction e,
       ce_country = adm_country (loc_admin (x_location e)),
       ce_admin1 = adm_admin1 (loc_admin (x_location e)),
       ce_admin2 = adm_admin2 (loc_admin (x_location e)),
       ce_locationName = adm_locality (loc_admin (x_location e)),
       ce_latitude =
         (case loc_geometry (x_location e) of
            None \<Rightarrow> None | Some g \<Rightarrow> map_option snd (coordinates g)),
       ce_longitude =
         (case loc_geometry (x_location e) of
            None \<Rightarrow> None | Some g \<Rightarrow> map_option fst (coordinates g)),
       ce_summaryShort = x_summary_short e,
       ce_summaryDetailed = x_summary_detailed e,
       ce_isClassroomSafe = (case x_is_classroom_safe e of None \<Rightarrow> False | Some b \<Rightarrow> b),
       ce_classroomTopicTags = (case x_classroom_topic_tags e of None \<Rightarrow> [] | Some t \<Rightarrow> t),
       ce_startDate =
         (if truthy_str (x_start_date e) then map_option (je_parseDate env) (x_start_date e)
          else None),
       ce_endDate =
         (if truthy_str (x_end_date e) then map_option (je_parseDate env) (x_end_date e)
          else None),
       ce_isOngoing = (case x_is_ongoing e of None \<Rightarrow> True | Some b \<Rightarrow> b),
       ce_sourceCount = 1,
       ce_primarySourceType =
         (if truthy_str (x_publisher e)
          then (case x_publisher e of None \<Rightarrow> ''news'' | Some p \<Rightarrow> categorizePublisher p)
          else ''news''),
       ce_episodeEligible = shouldMarkEpisodeEligible e qualityScore \<rparr>"

text \<open>
  \<^verbatim>\<open>saveExtractionResult\<close>: one transaction that creates the event, links the source to it
  and stores the extraction. The table of extractions is declared \<^verbatim>\<open>UNIQUE(source_id)\<close>, so
  the insert of a second row for a source fails and the transaction is rolled back.
\<close>

definition saveExtractionResult ::
  "job_env \<Rightarrow> job_world \<Rightarrow> int \<Rightarrow> extraction \<Rightarrow> string \<Rightarrow> real \<Rightarrow> GeoValidationResult
     \<Rightarrow> (job_error + string) \<times> job_world" where
  "saveExtractionResult env w sourceId e model qualityScore geoValidation =
     (let event = createdEventData env e qualityScore
      in if find (\<lambda>r. sr_id (src_row r) = sourceId) (w_sources w) = None
         then (Inl (SourceNotFound sourceId), w)
         else if hasExistingExtraction w sourceId
         then (Inl (UniqueViolation sourceId), w)
         else (Inr (ce_id event),
               w\<lparr> w_events := w_events w @ [event],
                   w_sources :=
                     map (\<lambda>r. if sr_id (src_row r) = sourceId
                              then r\<lparr> src_eventId := Some (ce_id event) \<rparr> else r)
                       (w_sources w),
                   w_source_extractions :=
                     w_source_extractions w @
                       [\<lparr> sx_source_id = sourceId, sx_event_id = ce_id event,
                          sx_schema_version = ''event_extraction_v1'', sx_model = model,
                          sx_extraction_json = e, sx_quality_score = qualityScore,
                          sx_geo_validation = geoValidation,
                          sx_created_at = je_now env \<rparr>] \<rparr>))"

text \<open>
  \<^verbatim>\<open>enqueueJob(queue, msg)\<close> reads \<^verbatim>\<open>QUEUES[queue].url\<close>. The keys of \<^verbatim>\<open>QUEUES\<close> are the eight
  queue names; for any other string the lookup is undefined and reading its \<^verbatim>\<open>url\<close> raises a
  TypeError before anything is sent.
\<close>

definition QUEUE_NAMES :: "string list" where
  "QUEUE_NAMES =
     [''q_ingest'', ''q_extract'', ''q_cluster'', ''q_geojoin'', ''q_alerts'', ''q_video'',
      ''q_classroom'', ''q_smoketest'']"

definition enqueueJob ::
  "string \<Rightarrow> cluster_envelope \<Rightarrow> job_world \<Rightarrow> (job_error + string) \<times> job_world" where
  "enqueueJob queue msg w =
     (if queue \<in> set QUEUE_NAMES
      then (Inr (cm_job_id msg), w\<lparr> w_outbox := w_outbox w @ [(queue, msg)] \<rparr>)
      else (Inl (QueueUndefined queue), w))"

subsection \<open>Extraction job: the handler\<close>

text \<open>
  Step 5 of \<^verbatim>\<open>runExtractJob\<close>: one call, and after a schema failure one more call with the
  strict prompt; a second failure marks the source and fails the job. A prompt is the
  request it is built from.
\<close>

definition extractWithRetry ::
  "job_env \<Rightarrow> job_world \<Rightarrow> SourceRow \<Rightarrow> string \<Rightarrow> (job_error + extraction) \<times> job_world" where
  "extractWithRetry env w source rawText =
     (let rq1 = \<lparr> rq_source = source, rq_rawText = rawText, rq_strict = False \<rparr>;
          w1 = w\<lparr> w_llm_calls := w_llm_calls w @ [rq1] \<rparr>
      in case callOpenAIForExtraction env rq1 of
           Inl err \<Rightarrow> (Inl (CapabilityError err), w1)
         | Inr e1 \<Rightarrow>
             if validateEventSchema env e1 then (Inr e1, w1)
             else
               (let rq2 = \<lparr> rq_source = source, rq_rawText = rawText, rq_strict = True \<rparr>;
                    w2 = w1\<lparr> w_llm_calls := w_llm_calls w1 @ [rq2] \<rparr>
                in case callOpenAIForExtraction env rq2 of
                     Inl err \<Rightarrow> (Inl (CapabilityError err), w2)
                   | Inr e2 \<Rightarrow>
                       if validateEventSchema env e2 then (Inr e2, w2)
                       else (Inl (InvalidExtraction (sr_id source)),
                             markSourceStatus w2 (sr_id source) ''extraction_failed'')))"

text \<open>Step 6: the geolocation verdict written back into the payload.\<close>

definition applyGeoValidation :: "GeoValidationResult \<Rightarrow> extraction \<Rightarrow> extraction" where
  "applyGeoValidation geoValidation e =
     (if \<not> valid geoValidation
      then e\<lparr> x_confidence_geolocation := adjustedConfidence geoValidation,
              x_location :=
                (if shouldNullifyCoords geoValidation
                 then (x_location e)\<lparr> loc_geometry := None \<rparr> else x_location e) \<rparr>
      else e)"

text \<open>Steps 6 to 8, for a payload that passed the schema.\<close>

definition persistAndEnqueue ::
  "job_env \<Rightarrow> job_world \<Rightarrow> extract_msg \<Rightarrow> real \<Rightarrow> extraction
     \<Rightarrow> (job_error + ExtractionResult option) \<times> job_world" where
  "persistAndEnqueue env w msg qualityScore e0 =
     (case validateGeolocation
             \<lparr> gi_location = x_location e0,
               gi_event_type_primary = Some (x_event_type_primary e0) \<rparr> of
        Inl ge \<Rightarrow> (Inl (GeoValidationError ge), w)
      | Inr geoValidation \<Rightarrow>
          (let e = applyGeoValidation geoValidation e0;
               model = (if em_model_hint msg = Some ''anthropic'' then ''claude''
                        else OPENAI_MODEL env)
           in case saveExtractionResult env w (em_source_id msg) e model qualityScore
                     geoValidation of
                (Inl err, w1) \<Rightarrow> (Inl err, w1)
              | (Inr eventId, w1) \<Rightarrow>
                  (let clusterMsg =
                         \<lparr> cm_job_id = je_newJobId env,
                           cm_correlation_id = em_correlation_id msg,
                           cm_enqueued_at = je_now env,
                           cm_event_id = je_parseInt env eventId \<rparr>
                   in case enqueueJob ''CLUSTER'' clusterMsg w1 of
                        (Inl err, w2) \<Rightarrow> (Inl err, w2)
                      | (Inr sent, w2) \<Rightarrow>
                          (Inr (Some \<lparr> er_eventId = eventId,
                                       er_confidence = x_confidence_extraction e,
                                       er_geoValidation = geoValidation \<rparr>),
                           w2))))"

definition runExtractJob ::
  "job_env \<Rightarrow> job_world \<Rightarrow> extract_msg
     \<Rightarrow> (job_error + ExtractionResult option) \<times> job_world" where
  "runExtractJob env w msg =
     (case loadSource w (em_source_id msg) of
        None \<Rightarrow> (Inl (SourceNotFound (em_source_id msg)), w)
      | Some source \<Rightarrow>
          if em_force_reextract msg \<noteq> Some True \<and> hasExistingExtraction w (em_source_id msg)
          then (Inr None, w)
          else
            (let rawText =
                   truncateText (case sr_snippet source of None \<Rightarrow> [] | Some t \<Rightarrow> t)
                     MAX_SOURCE_CHARS
             in if rawText = [] \<or> length (trim rawText) < MIN_SOURCE_CHARS
                then (Inr None, markSourceStatus w (em_source_id msg) ''too_short'')
                else
                  (let qualityScore =
                         calculateSourceQualityScore env (sr_sourceType source)
                           (sr_publisher source) (sr_credibilityScore source)
                   in case extractWithRetry env w source rawText of
                        (Inl err, w1) \<Rightarrow> (Inl err, w1)
                      | (Inr e, w1) \<Rightarrow> persistAndEnqueue env w1 msg qualityScore e)))"







text \<open>
  Two worlds with the same events, the same stored extractions and the same source
  identifiers, row by row.
\<close>

definition sameTables :: "job_world \<Rightarrow> job_world \<Rightarrow> bool" where
  "sameTables w w' =
     (w_events w' = w_events w \<and> w_source_extractions w' = w_source_extractions w
      \<and> map (\<lambda>r. sr_id (src_row r)) (w_sources w') = map (\<lambda>r. sr_id (src_row r)) (w_sources w))"

subsection \<open>Backoff: theorems\<close>






subsection \<open>Clustering engine: bounds of the similarity components\<close>









subsection \<open>Clustering engine: the sample data evaluated\<close>

lemmas tokenize_defs =
  tokenize_def toLowerCase_def stripPunctuation_def isWordChar_def isSpaceChar_def
  STOP_WORDS_def UPPER_def LOWER_def DIGITS_def

lemmas cluster_defs =
  clusterEvent_def loadEventForClustering_def mapToClusteringEvent_def
  findCandidateMatches_def candidateQuery_def hasCoords_def sameAdmin1_def
  TIME_WINDOW_HOURS_def scoreCandidates_def List.map_filter_simps calculateSimilarity_def
  similarityAccum_def geoPart_def temporalPart_def MIN_SIMILARITY_SCORE_def mergeEvents_def
  hasEvent_def confidenceBoostOf_def newConfidenceOf_def SOURCE_CONFIDENCE_BOOST_def
  MAX_BOOSTED_CONFIDENCE_def resultNew_def

lemma tokenize_ex_title: "tokenize ''Wildfire near Lake'' = [''wildfire'', ''near'', ''lake'']"
  by (simp add: tokenize_defs)

lemma tokenize_ex_summary:
  "tokenize ''Large wildfire burning'' = [''large'', ''wildfire'', ''burning'']"
  by (simp add: tokenize_defs)

lemma similarity_ex_title:
  "calculateTextSimilarity ''Wildfire near Lake'' ''Wildfire near Lake'' = 1"
  by (simp add: calculateTextSimilarity_def tokenize_ex_title)

lemma similarity_ex_summary:
  "calculateTextSimilarity ''Large wildfire burning'' ''Large wildfire burning'' = 1"
  by (simp add: calculateTextSimilarity_def tokenize_ex_summary)



lemma ex_pair_similarity:
  "calculateSimilarity (mapToClusteringEvent ex_rowB) (mapToClusteringEvent ex_rowA)
     = Some (9 / 10)"
  by (simp add: cluster_defs ex_rowA_def ex_rowB_def similarity_ex_title similarity_ex_summary)

text \<open>The first delivery of the clustering job for \<open>B\<close> merges it into \<open>A\<close>.\<close>

lemma ex_first_merge:
  "mergeEvents 5000 ex_store (mapToClusteringEvent ex_rowA) (mapToClusteringEvent ex_rowB)
     = (Inr (ex_merged 2), ex_store1)"
  by (simp add: cluster_defs ex_store_def ex_store1_def ex_merged_def ex_rowA_def ex_rowB_def)

lemma ex_first_delivery: "clusterEvent 5000 ex_store ''B'' = (Inr (ex_merged 2), ex_store1)"
  by (simp add: cluster_defs ex_store_def ex_store1_def ex_merged_def ex_rowA_def ex_rowB_def
      similarity_ex_title similarity_ex_summary)

text \<open>The second delivery, on the store the first one left, merges again.\<close>

lemma ex_second_delivery: "clusterEvent 6000 ex_store1 ''B'' = (Inr (ex_merged 3), ex_store2)"
  by (simp add: cluster_defs ex_store1_def ex_store2_def ex_merged_def ex_rowA_def ex_rowB_def
      similarity_ex_title similarity_ex_summary)

text \<open>Every merge appends an audit row whose score is 0.\<close>

lemma mergeEvents_audit_row:
  assumes "mergeEvents now st existing newEvent = (Inr res, st')"
  shows "event_merges st' =
     event_merges st @
       [\<lparr> primary_event_id = id_c existing, merged_event_id = id_c newEvent,
          similarity_score = 0, merged_at = now \<rparr>]"
proof -
  have "hasEvent (events st) (id_c existing) \<and> hasEvent (events st) (id_c newEvent)"
    using assms by (cases "hasEvent (events st) (id_c existing)";
        cases "hasEvent (events st) (id_c newEvent)") (simp_all add: mergeEvents_def)
  moreover have "event_merges (snd (mergeEvents now st existing newEvent)) = event_merges st'"
    using assms by simp
  ultimately show ?thesis
    by (simp add: mergeEvents_def Let_def)
qed

subsection \<open>Clustering engine: claims\<close>

text \<open>
  Claim C1: for an event whose status is already \<open>merged\<close>, a second delivery of its
  clustering job is a no-op: it does not change the absorbing event's source count or
  extraction confidence and writes no second audit row.

  \<^verbatim>\<open>clusterEvent\<close> never reads the status it writes. On the sample store the first delivery
  for \<open>B\<close> marks it merged into \<open>A\<close> and leaves \<open>A\<close> with two sources, confidence 0.85 and one
  audit row; the second delivery merges \<open>B\<close> again: three sources, confidence 0.9 and two
  audit rows.
\<close>

theorem C1_redelivery_merges_again:
  "(let (r1, s1) = clusterEvent 5000 ex_store ''B'';
        (r2, s2) = clusterEvent 6000 s1 ''B''
    in map db_status (events s1) = [''active'', ''merged'']
     \<and> map db_sourceCount (events s1) = [2, 1]
     \<and> map db_sourceCount (events s2) = [3, 1]
     \<and> map db_confidenceExtraction (events s1) = [Some 0.85, Some 0.8]
     \<and> map db_confidenceExtraction (events s2) = [Some 0.9, Some 0.8]
     \<and> length (event_merges s1) = 1
     \<and> length (event_merges s2) = 2)"
  unfolding ex_first_delivery Let_def prod.case ex_second_delivery
  by (simp add: ex_store1_def ex_store2_def ex_rowA_def ex_rowB_def)




text \<open>
  Claim C3, as stated, fails for a previous confidence above the cap: merging a
  one-source event into an event of confidence 1 leaves it at 0.98.
\<close>

theorem C3_confidence_decreases_counterexample:
  "confidenceExtraction (mapToClusteringEvent ex_rowSure) = 1
   \<and> map db_confidenceExtraction
       (events (snd (mergeEvents 5000 ex_storeSure (mapToClusteringEvent ex_rowSure)
                       (mapToClusteringEvent ex_rowB))))
     = [Some (98 / 100), Some (8 / 10)]"
  by (simp add: mergeEvents_def hasEvent_def confidenceBoostOf_def newConfidenceOf_def
      SOURCE_CONFIDENCE_BOOST_def MAX_BOOSTED_CONFIDENCE_def mapToClusteringEvent_def
      ex_storeSure_def ex_store_def ex_rowSure_def ex_rowA_def ex_rowB_def)

text \<open>
  Claim C3 (amended): after every merge the primary event's extraction confidence equals
  \<open>min (previous + absorbedSourceCount * 0.05) 0.98\<close>. This value is not below the previous
  confidence whenever the absorbed source count is non-negative and the previous confidence
  is at most 0.98; for a previous confidence above 0.98 it is 0.98.
\<close>

theorem C3_merge_confidence:
  assumes "mergeEvents now st existing newEvent = (Inr res, st')"
  shows "hasEvent (events st') (id_c existing)
     \<and> (\<forall>r \<in> set (events st'). db_id r = id_c existing \<longrightarrow>
           db_confidenceExtraction r =
             Some (min (confidenceExtraction existing
                          + real_of_int (sourceCount newEvent) * 0.05) 0.98))
     \<and> (0 \<le> sourceCount newEvent \<and> confidenceExtraction existing \<le> 0.98 \<longrightarrow>
           confidenceExtraction existing
             \<le> min (confidenceExtraction existing
                      + real_of_int (sourceCount newEvent) * 0.05) 0.98)
     \<and> (0 \<le> sourceCount newEvent \<and> 0.98 < confidenceExtraction existing \<longrightarrow>
           min (confidenceExtraction existing
                  + real_of_int (sourceCount newEvent) * 0.05) 0.98 = 0.98)"
proof -
  define f1 :: "event_row \<Rightarrow> event_row" where "f1 = (\<lambda>r. if db_id r = id_c existing
       then r\<lparr> db_confidenceExtraction := Some (newConfidenceOf existing newEvent),
               db_sourceCount := sourceCount existing + sourceCount newEvent,
               db_updatedAt := now,
               db_severityLevel :=
                 (if severityLevel existing < severityLevel newEvent
                  then severityLevel newEvent else db_severityLevel r) \<rparr>
       else r)"
  define f2 :: "event_row \<Rightarrow> event_row" where "f2 = (\<lambda>r. if db_id r = id_c newEvent
       then r\<lparr> db_mergedIntoId := Some (id_c existing), db_status := ''merged'' \<rparr>
       else r)"
  have id1: "db_id (f1 r) = db_id r" for r
    by (simp add: f1_def)
  have id2: "db_id (f2 r) = db_id r" for r
    by (simp add: f2_def)
  have c2: "db_confidenceExtraction (f2 r) = db_confidenceExtraction r" for r
    by (simp add: f2_def)
  have c1: "db_id r = id_c existing \<Longrightarrow>
      db_confidenceExtraction (f1 r) = Some (newConfidenceOf existing newEvent)" for r
    by (simp add: f1_def)
  have found: "hasEvent (events st) (id_c existing)"
  proof (rule ccontr)
    assume "\<not> hasEvent (events st) (id_c existing)"
    then have "mergeEvents now st existing newEvent = (Inl (RecordNotFound (id_c existing)), st)"
      by (simp add: mergeEvents_def)
    with assms show False by simp
  qed
  have found': "hasEvent (events st) (id_c newEvent)"
  proof (rule ccontr)
    assume "\<not> hasEvent (events st) (id_c newEvent)"
    with found
    have "mergeEvents now st existing newEvent = (Inl (RecordNotFound (id_c newEvent)), st)"
      by (simp add: mergeEvents_def)
    with assms show False by simp
  qed
  have "snd (mergeEvents now st existing newEvent) = st'"
    using assms by simp
  then have "events (snd (mergeEvents now st existing newEvent)) = events st'"
    by simp
  then have ev: "events st' = map f2 (map f1 (events st))"
    using found found' by (simp add: mergeEvents_def Let_def f1_def f2_def)
  obtain r0 where r0: "r0 \<in> set (events st)" "db_id r0 = id_c existing"
    using found unfolding hasEvent_def by blast
  have "f2 (f1 r0) \<in> set (events st')" "db_id (f2 (f1 r0)) = id_c existing"
    using r0 by (simp_all add: ev id1 id2)
  then have one: "hasEvent (events st') (id_c existing)"
    unfolding hasEvent_def by blast
  have two: "\<forall>r \<in> set (events st'). db_id r = id_c existing \<longrightarrow>
      db_confidenceExtraction r = Some (newConfidenceOf existing newEvent)"
  proof (intro ballI impI)
    fix r assume r: "r \<in> set (events st')" "db_id r = id_c existing"
    then obtain q where q: "q \<in> set (events st)" "r = f2 (f1 q)"
      unfolding ev by auto
    with r(2) have "db_id q = id_c existing"
      by (simp add: id1 id2)
    then show "db_confidenceExtraction r = Some (newConfidenceOf existing newEvent)"
      by (simp add: q(2) c2 c1)
  qed
  have nc: "newConfidenceOf existing newEvent
      = min (confidenceExtraction existing + real_of_int (sourceCount newEvent) * 0.05) 0.98"
    by (simp add: newConfidenceOf_def confidenceBoostOf_def SOURCE_CONFIDENCE_BOOST_def
        MAX_BOOSTED_CONFIDENCE_def)
  have three: "0 \<le> sourceCount newEvent \<and> confidenceExtraction existing \<le> 0.98 \<longrightarrow>
      confidenceExtraction existing
        \<le> min (confidenceExtraction existing + real_of_int (sourceCount newEvent) * 0.05) 0.98"
    by simp
  have four: "0 \<le> sourceCount newEvent \<and> 0.98 < confidenceExtraction existing \<longrightarrow>
      min (confidenceExtraction existing + real_of_int (sourceCount newEvent) * 0.05) 0.98
        = 0.98"
  proof (intro impI, elim conjE)
    assume "0 \<le> sourceCount newEvent" "0.98 < confidenceExtraction existing"
    then have "0.98 < confidenceExtraction existing + real_of_int (sourceCount newEvent) * 0.05"
      by (simp add: add_strict_increasing2)
    then show "min (confidenceExtraction existing + real_of_int (sourceCount newEvent) * 0.05)
        0.98 = 0.98"
      by (simp add: min_def)
  qed
  show ?thesis
    using one two [unfolded nc] three four by (intro conjI)
qed

theorem C3_merge_confidence_witness:
  "mergeEvents 5000 ex_store (mapToClusteringEvent ex_rowA) (mapToClusteringEvent ex_rowB)
     = (Inr (ex_merged 2), ex_store1)
   \<and> (0::int) \<le> sourceCount (mapToClusteringEvent ex_rowB)
   \<and> confidenceExtraction (mapToClusteringEvent ex_rowA) \<le> 0.98
   \<and> hasEvent (events ex_store1) (id_c (mapToClusteringEvent ex_rowA))
   \<and> map db_id (events ex_store1) = [''A'', ''B'']
   \<and> map db_confidenceExtraction (events ex_store1) = [Some (85 / 100), Some (8 / 10)]
   \<and> confidenceExtraction (mapToClusteringEvent ex_rowA)
       \<le> min (confidenceExtraction (mapToClusteringEvent ex_rowA)
               + real_of_int (sourceCount (mapToClusteringEvent ex_rowB)) * 0.05) 0.98"
proof -
  have h: "(0::int) \<le> sourceCount (mapToClusteringEvent ex_rowB)"
      "confidenceExtraction (mapToClusteringEvent ex_rowA) \<le> 0.98"
    by (simp_all add: mapToClusteringEvent_def ex_rowA_def ex_rowB_def)
  note t = C3_merge_confidence [OF ex_first_merge]
  have one: "hasEvent (events ex_store1) (id_c (mapToClusteringEvent ex_rowA))"
    by (rule t [THEN conjunct1])
  have three: "confidenceExtraction (mapToClusteringEvent ex_rowA)
       \<le> min (confidenceExtraction (mapToClusteringEvent ex_rowA)
               + real_of_int (sourceCount (mapToClusteringEvent ex_rowB)) * 0.05) 0.98"
    by (rule mp [OF t [THEN conjunct2, THEN conjunct2, THEN conjunct1]]) (intro conjI h)
  have e: "map db_id (events ex_store1) = [''A'', ''B'']"
      "map db_confidenceExtraction (events ex_store1) = [Some (85 / 100), Some (8 / 10)]"
    by (simp_all add: ex_store1_def ex_rowA_def ex_rowB_def)
  show ?thesis
    using ex_first_merge h one e three by (intro conjI)
qed

text \<open>
  Claim C4: the audit row of a merge records the similarity score computed between the
  primary and the absorbed event.

  \<^verbatim>\<open>mergeEvents\<close> is not given the score and inserts the constant 0. On the sample store the
  score that led to the merge is 0.9 and the audit row holds 0.
\<close>

theorem C4_audit_row_holds_zero:
  "calculateSimilarity (mapToClusteringEvent ex_rowB) (mapToClusteringEvent ex_rowA)
     = Some (9 / 10)
   \<and> event_merges (snd (clusterEvent 5000 ex_store ''B''))
     = [\<lparr> primary_event_id = ''A'', merged_event_id = ''B'', similarity_score = 0,
          merged_at = 5000 \<rparr>]"
  by (simp add: ex_pair_similarity ex_first_delivery ex_store1_def)



subsection \<open>Geolocation validation: the checks one by one\<close>

lemma checkRanges_nullify:
  "shouldNullifyCoords (checkRanges lng lat geoStart) = outOfRange lng lat"
  by (simp add: checkRanges_def geoStart_def outOfRange_def Let_def)

lemma checkRanges_confidence: "adjustedConfidence (checkRanges lng lat st) = adjustedConfidence st"
  by (simp add: checkRanges_def Let_def)

lemma checkRanges_fix:
  "outOfRange lng lat \<Longrightarrow>
     suggestedFix (checkRanges lng lat geoStart)
       = Some (Nullify, if lng < -180 \<or> 180 < lng then ''Longitude out of range''
                        else ''Latitude out of range'')"
  by (auto simp: checkRanges_def geoStart_def outOfRange_def Let_def)

lemma checkRanges_issues:
  "issues (checkRanges lng lat geoStart)
     = (if lat < -90 \<or> 90 < lat then [InvalidLatitude lat] else [])
       @ (if lng < -180 \<or> 180 < lng then [InvalidLongitude lng] else [])"
  by (simp add: checkRanges_def geoStart_def Let_def)

lemma checkSwapped_unreachable:
  "checkSwapped lng lat (checkRanges lng lat geoStart) = checkRanges lng lat geoStart"
proof (cases "outOfRange lng lat")
  case True
  then show ?thesis
    by (simp add: checkSwapped_def checkRanges_nullify)
next
  case False
  then have "\<not> 90 < \<bar>lat\<bar>"
    by (simp add: outOfRange_def abs_if)
  then show ?thesis
    by (simp add: checkSwapped_def)
qed

lemma checkCountry_rejected:
  "shouldNullifyCoords st \<Longrightarrow> checkCountry countryName lng lat st = Inr st"
  by (simp add: checkCountry_def)

lemma checkCountry_keeps:
  assumes "checkCountry countryName lng lat st = Inr st'"
  shows "shouldNullifyCoords st' = shouldNullifyCoords st"
proof (cases "\<not> shouldNullifyCoords st \<and> countryName \<noteq> []")
  case False
  with assms show ?thesis
    by (auto simp: checkCountry_def)
next
  case True
  show ?thesis
  proof (cases "checkCountryCoordinateMatch countryName lng lat")
    case (Inl e)
    with True assms show ?thesis
      by (simp add: checkCountry_def)
  next
    case (Inr cc)
    with True assms show ?thesis
      by (cases "matches cc") (auto simp: checkCountry_def)
  qed
qed

lemma checkOcean_keeps:
  "shouldNullifyCoords (checkOcean ex lng lat st) = shouldNullifyCoords st"
  by (simp add: checkOcean_def)

lemma checkOcean_rejected: "shouldNullifyCoords st \<Longrightarrow> checkOcean ex lng lat st = st"
  by (simp add: checkOcean_def)

lemma checkPrecision_keeps:
  "shouldNullifyCoords (checkPrecision geom st) = shouldNullifyCoords st"
  "suggestedFix (checkPrecision geom st) = suggestedFix st"
  by (simp_all add: checkPrecision_def)

lemma checkPrecision_issues:
  "issues (checkPrecision geom st)
     = issues st @ (if precision geom = Some ''exact'' \<and> issues st \<noteq> []
                    then [ExactPrecisionWithIssues] else [])"
  by (simp add: checkPrecision_def)

lemma finalConfidence_fields:
  "shouldNullifyCoords (finalConfidence st) = shouldNullifyCoords st"
  "suggestedFix (finalConfidence st) = suggestedFix st"
  "issues (finalConfidence st) = issues st"
  "valid (finalConfidence st) = (issues st = [])"
  "adjustedConfidence (finalConfidence st)
     = (if shouldNullifyCoords st then 0 else max 0.1 (adjustedConfidence st))"
  by (simp_all add: finalConfidence_def)

lemma validateGeolocation_rejected:
  assumes "loc_geometry (gi_location ex) = Some geom" and "coordinates geom = Some (lng, lat)"
    and "outOfRange lng lat"
  shows "validateGeolocation ex
     = Inr (finalConfidence (checkPrecision geom (checkRanges lng lat geoStart)))"
proof -
  have n: "shouldNullifyCoords (checkRanges lng lat geoStart)"
    using assms(3) by (simp add: checkRanges_nullify)
  show ?thesis
    using assms(1,2) n
    by (simp add: validateGeolocation_def checkSwapped_unreachable checkCountry_rejected
        checkOcean_rejected)
qed

lemma validateGeolocation_nullify:
  assumes "validateGeolocation ex = Inr r"
  shows "shouldNullifyCoords r
     = (\<exists>geom lng lat. loc_geometry (gi_location ex) = Some geom
           \<and> coordinates geom = Some (lng, lat) \<and> outOfRange lng lat)"
proof (cases "loc_geometry (gi_location ex)")
  case None
  with assms show ?thesis
    by (auto simp: validateGeolocation_def adminOnlyResult_def)
next
  case (Some geom)
  note g = this
  show ?thesis
  proof (cases "coordinates geom")
    case None
    with g assms show ?thesis
      by (auto simp: validateGeolocation_def adminOnlyResult_def)
  next
    case (Some p)
    obtain lng lat where p: "p = (lng, lat)"
      by (cases p)
    let ?s2 = "checkRanges lng lat geoStart"
    obtain st3 where c: "checkCountry (adm_country (loc_admin (gi_location ex))) lng lat ?s2
        = Inr st3"
      and r: "r = finalConfidence (checkPrecision geom (checkOcean ex lng lat st3))"
      using assms g Some p
      by (cases "checkCountry (adm_country (loc_admin (gi_location ex))) lng lat ?s2")
        (auto simp: validateGeolocation_def checkSwapped_unreachable)
    have "shouldNullifyCoords r = outOfRange lng lat"
      unfolding r
      by (simp add: finalConfidence_fields checkPrecision_keeps checkOcean_keeps
          checkCountry_keeps [OF c] checkRanges_nullify)
    with g Some p show ?thesis
      by simp
  qed
qed

lemma validateGeolocation_floor:
  assumes "validateGeolocation ex = Inr r" and "\<not> shouldNullifyCoords r"
  shows "0.1 \<le> adjustedConfidence r"
proof (cases "loc_geometry (gi_location ex)")
  case None
  with assms show ?thesis
    by (auto simp: validateGeolocation_def adminOnlyResult_def)
next
  case (Some geom)
  note g = this
  show ?thesis
  proof (cases "coordinates geom")
    case None
    with g assms show ?thesis
      by (auto simp: validateGeolocation_def adminOnlyResult_def)
  next
    case (Some p)
    obtain lng lat where p: "p = (lng, lat)"
      by (cases p)
    let ?s2 = "checkRanges lng lat geoStart"
    obtain st3 where r: "r = finalConfidence (checkPrecision geom (checkOcean ex lng lat st3))"
      using assms(1) g Some p
      by (cases "checkCountry (adm_country (loc_admin (gi_location ex))) lng lat ?s2")
        (auto simp: validateGeolocation_def checkSwapped_unreachable)
    show ?thesis
      using assms(2) unfolding r by (simp add: finalConfidence_fields)
  qed
qed


lemma ex_geo_atlantic_result:
  "validateGeolocation ex_geo_atlantic
     = Inr \<lparr> valid = False, issues = [InOcean, ExactPrecisionWithIssues],
             adjustedConfidence = 0.35, shouldNullifyCoords = False, suggestedFix = None \<rparr>"
  by (simp add: validateGeolocation_def ex_geo_atlantic_def checkRanges_def checkSwapped_def
      checkCountry_def checkCountryCoordinateMatch_def COUNTRY_BOUNDS_def INHERITED_KEYS_def
      trim_def toLowerCase_def isSpaceChar_def UPPER_def LOWER_def
      checkOcean_def checkIfLikelyOcean_def isMarineEventExpected_def List.map_filter_simps
      checkPrecision_def finalConfidence_def geoStart_def)

subsection \<open>Geolocation validation: claims\<close>




lemma checkCountryCoordinateMatch_throws:
  "checkCountryCoordinateMatch countryName lng lat = Inl err
     \<Longrightarrow> trim (toLowerCase countryName) \<in> set INHERITED_KEYS"
  by (auto simp: checkCountryCoordinateMatch_def Let_def split: option.splits if_splits)

lemma validateGeolocation_throws:
  assumes "validateGeolocation ex = Inl err"
  shows "normalizedCountryOf ex \<in> set INHERITED_KEYS"
proof (cases "loc_geometry (gi_location ex)")
  case None
  with assms show ?thesis
    by (simp add: validateGeolocation_def)
next
  case (Some geom)
  note g = this
  show ?thesis
  proof (cases "coordinates geom")
    case None
    with g assms show ?thesis
      by (simp add: validateGeolocation_def)
  next
    case (Some p)
    obtain lng lat where p: "p = (lng, lat)"
      by (cases p)
    let ?c = "adm_country (loc_admin (gi_location ex))"
    have "\<exists>e. checkCountry ?c lng lat (checkRanges lng lat geoStart) = Inl e"
      using assms g Some p
      by (cases "checkCountry ?c lng lat (checkRanges lng lat geoStart)")
        (auto simp: validateGeolocation_def checkSwapped_unreachable)
    then have "\<exists>e. checkCountryCoordinateMatch ?c lng lat = Inl e"
      by (cases "checkCountryCoordinateMatch ?c lng lat")
        (auto simp: checkCountry_def split: if_splits)
    then show ?thesis
      using checkCountryCoordinateMatch_throws by (auto simp: normalizedCountryOf_def)
  qed
qed

text \<open>
  Claim C6: coordinates outside the latitude range \<open>[-90, 90]\<close> or the longitude range
  \<open>[-180, 180]\<close> are rejected: the validator returns an adjusted confidence of exactly 0 and
  asks for the coordinates to be cleared. Whenever the point is not rejected in this way
  (coordinates absent or in range), the result returned does not ask for that and its
  adjusted confidence is at least 0.1, whatever issues were found. The validator returns a
  result unless the country name, lower-cased and trimmed, is a name the bounds table
  inherits.
\<close>

theorem C6_reject_out_of_range_floor_otherwise:
  "(coordsOutOfRange ex
     \<longrightarrow> (\<exists>r reason. validateGeolocation ex = Inr r
            \<and> adjustedConfidence r = 0
            \<and> shouldNullifyCoords r
            \<and> \<not> valid r
            \<and> suggestedFix r = Some (Nullify, reason)))
   \<and> (\<not> coordsOutOfRange ex' \<and> validateGeolocation ex' = Inr r'
     \<longrightarrow> \<not> shouldNullifyCoords r'
         \<and> 0 < adjustedConfidence r' \<and> 0.1 \<le> adjustedConfidence r')
   \<and> (normalizedCountryOf ex' \<notin> set INHERITED_KEYS
     \<longrightarrow> (\<exists>r. validateGeolocation ex' = Inr r))"
proof (intro conjI impI)
  assume a: "coordsOutOfRange ex"
  then obtain geom lng lat where g: "loc_geometry (gi_location ex) = Some geom"
      "coordinates geom = Some (lng, lat)" and out: "outOfRange lng lat"
    by (auto simp: coordsOutOfRange_def split: option.splits)
  let ?r = "finalConfidence (checkPrecision geom (checkRanges lng lat geoStart))"
  have v: "validateGeolocation ex = Inr ?r"
    using g out by (rule validateGeolocation_rejected)
  have n: "shouldNullifyCoords (checkRanges lng lat geoStart)"
    using out by (simp add: checkRanges_nullify)
  have i: "issues (checkRanges lng lat geoStart) \<noteq> []"
    using out by (auto simp: checkRanges_issues outOfRange_def)
  have "adjustedConfidence ?r = 0" "shouldNullifyCoords ?r" "\<not> valid ?r"
      "suggestedFix ?r = Some (Nullify, if lng < -180 \<or> 180 < lng
          then ''Longitude out of range'' else ''Latitude out of range'')"
    using n i
    by (simp_all add: finalConfidence_fields checkPrecision_keeps checkPrecision_issues
        checkRanges_fix [OF out])
  with v show "\<exists>r reason. validateGeolocation ex = Inr r
      \<and> adjustedConfidence r = 0 \<and> shouldNullifyCoords r \<and> \<not> valid r
      \<and> suggestedFix r = Some (Nullify, reason)"
    by blast
next
  assume b: "\<not> coordsOutOfRange ex' \<and> validateGeolocation ex' = Inr r'"
  then have v: "validateGeolocation ex' = Inr r'"
    by simp
  have "shouldNullifyCoords r' = coordsOutOfRange ex'"
    unfolding validateGeolocation_nullify [OF v]
    by (auto simp: coordsOutOfRange_def split: option.splits)
  with b show n: "\<not> shouldNullifyCoords r'"
    by simp
  with v have "0.1 \<le> adjustedConfidence r'"
    by (rule validateGeolocation_floor)
  then show "0 < adjustedConfidence r'" "0.1 \<le> adjustedConfidence r'"
    by simp_all
next
  assume c: "normalizedCountryOf ex' \<notin> set INHERITED_KEYS"
  show "\<exists>r. validateGeolocation ex' = Inr r"
  proof (cases "validateGeolocation ex'")
    case (Inl err)
    then have "normalizedCountryOf ex' \<in> set INHERITED_KEYS"
      by (rule validateGeolocation_throws)
    with c show ?thesis
      by simp
  next
    case (Inr r)
    then show ?thesis
      by blast
  qed
qed

theorem C6_reject_out_of_range_floor_otherwise_witness:
  "coordsOutOfRange ex_geo_swapped
   \<and> (\<exists>r reason. validateGeolocation ex_geo_swapped = Inr r
         \<and> adjustedConfidence r = 0
         \<and> shouldNullifyCoords r
         \<and> \<not> valid r
         \<and> suggestedFix r = Some (Nullify, reason))
   \<and> \<not> coordsOutOfRange ex_geo_atlantic
   \<and> normalizedCountryOf ex_geo_atlantic \<notin> set INHERITED_KEYS
   \<and> validateGeolocation ex_geo_atlantic
       = Inr \<lparr> valid = False, issues = [InOcean, ExactPrecisionWithIssues],
               adjustedConfidence = 0.35, shouldNullifyCoords = False, suggestedFix = None \<rparr>
   \<and> (0::real) < 0.35 \<and> (0.1::real) \<le> 0.35"
proof -
  let ?r = "\<lparr> valid = False, issues = [InOcean, ExactPrecisionWithIssues],
      adjustedConfidence = 0.35, shouldNullifyCoords = False, suggestedFix = None \<rparr>"
  have h1: "coordsOutOfRange ex_geo_swapped"
    by (simp add: coordsOutOfRange_def outOfRange_def ex_geo_swapped_def)
  have h2: "\<not> coordsOutOfRange ex_geo_atlantic"
    by (simp add: coordsOutOfRange_def outOfRange_def ex_geo_atlantic_def)
  have h3: "normalizedCountryOf ex_geo_atlantic \<notin> set INHERITED_KEYS"
    by (simp add: normalizedCountryOf_def ex_geo_atlantic_def trim_def toLowerCase_def
        isSpaceChar_def UPPER_def LOWER_def INHERITED_KEYS_def)
  note t = C6_reject_out_of_range_floor_otherwise [of ex_geo_swapped ex_geo_atlantic ?r]
  have a: "\<exists>r reason. validateGeolocation ex_geo_swapped = Inr r
      \<and> adjustedConfidence r = 0 \<and> shouldNullifyCoords r \<and> \<not> valid r
      \<and> suggestedFix r = Some (Nullify, reason)"
    by (rule mp [OF t [THEN conjunct1] h1])
  have b: "\<not> shouldNullifyCoords ?r
      \<and> 0 < adjustedConfidence ?r \<and> 0.1 \<le> adjustedConfidence ?r"
    by (rule mp [OF t [THEN conjunct2, THEN conjunct1]])
      (intro conjI h2 ex_geo_atlantic_result)
  have c: "(0::real) < 0.35" "(0.1::real) \<le> 0.35"
    using b by simp_all
  show ?thesis
    using h1 a h2 h3 ex_geo_atlantic_result c by (intro conjI)
qed

subsection \<open>Consumer: poison messages\<close>

lemma toReceived_fields:
  assumes "toReceived JSON_parse parseInt m = Some rm"
  shows "ReceiptHandle m = Some (receiptHandle rm) \<and> receiptHandle rm \<noteq> []
     \<and> Body m = Some (rawBody rm) \<and> rawBody rm \<noteq> []
     \<and> parsed rm = parseEnvelope JSON_parse (rawBody rm)"
proof (cases "ReceiptHandle m")
  case None
  with assms show ?thesis
    by (simp add: toReceived_def)
next
  case (Some h)
  note h = this
  show ?thesis
  proof (cases "Body m")
    case None
    with assms show ?thesis
      by (simp add: toReceived_def)
  next
    case (Some b)
    with h assms show ?thesis
      by (auto simp: toReceived_def split: if_splits)
  qed
qed

lemma receiveMessages_member:
  "rm \<in> set (receiveMessages JSON_parse parseInt resp)
     \<longleftrightarrow> (\<exists>m \<in> set resp. toReceived JSON_parse parseInt m = Some rm)"
  by (induction resp)
    (auto simp: receiveMessages_def List.map_filter_simps split: option.splits)

lemma parseEnvelope_poison:
  "JSON_parse body = None \<or> (\<exists>v. JSON_parse body = Some v \<and> \<not> isJobMessage v)
     \<Longrightarrow> parseEnvelope JSON_parse body = None"
  by (auto simp: parseEnvelope_def)

text \<open>
  Claim C9: a received message whose body is not parsable JSON, or parses to a value that is
  not a valid job envelope, is deleted at once: handling it is the single action of deleting
  it, with no handler invoked and no change of visibility.
\<close>

theorem C9_poison_message_deleted:
  assumes "rm \<in> set (receiveMessages JSON_parse parseInt resp)"
    and "JSON_parse (rawBody rm) = None
         \<or> (\<exists>v. JSON_parse (rawBody rm) = Some v \<and> \<not> isJobMessage v)"
  shows "parsed rm = None
     \<and> handleMessage env queue (receiptHandle rm) (rawBody rm) (parsed rm)
          (approximateReceiveCount rm)
        = [DeleteMessage queue (receiptHandle rm)]
     \<and> (\<forall>a \<in> set (handleMessage env queue (receiptHandle rm) (rawBody rm) (parsed rm)
                       (approximateReceiveCount rm)).
           (\<forall>t msg. a \<noteq> InvokeHandler t msg) \<and> (\<forall>q h d. a \<noteq> ChangeVisibility q h d))"
proof -
  obtain m where "toReceived JSON_parse parseInt m = Some rm"
    using assms(1) unfolding receiveMessages_member by blast
  then have "parsed rm = parseEnvelope JSON_parse (rawBody rm)"
    using toReceived_fields by blast
  then have p: "parsed rm = None"
    using parseEnvelope_poison [of JSON_parse "rawBody rm", OF assms(2)] by simp
  have h: "handleMessage env queue (receiptHandle rm) (rawBody rm) (parsed rm)
      (approximateReceiveCount rm) = [DeleteMessage queue (receiptHandle rm)]"
    by (simp add: p handleMessage_def handlePoisonMessage_def deleteMessage_def)
  show ?thesis
    unfolding h using p by simp
qed

lemma ex_received:
  "receiveMessages ex_parse ex_parseInt ex_response
     = [\<lparr> receiptHandle = ''h1'', rawBody = ''not json'', parsed = None, messageId = Some ''m1'',
          approximateReceiveCount = Some 1 \<rparr>,
        \<lparr> receiptHandle = ''h2'', rawBody = ''{reindex}'', parsed = None, messageId = Some ''m2'',
          approximateReceiveCount = Some 3 \<rparr>]"
  by (simp add: receiveMessages_def List.map_filter_simps toReceived_def parseEnvelope_def
      ex_parse_def ex_parseInt_def ex_response_def ex_not_envelope_def isJobMessage_def
      JOB_TYPES_def)

theorem C9_poison_message_deleted_witness:
  "\<lparr> receiptHandle = ''h2'', rawBody = ''{reindex}'', parsed = None, messageId = Some ''m2'',
      approximateReceiveCount = Some 3 \<rparr>
     \<in> set (receiveMessages ex_parse ex_parseInt ex_response)
   \<and> ex_parse ''{reindex}'' = Some ex_not_envelope \<and> \<not> isJobMessage ex_not_envelope
   \<and> handleMessage ex_env ''q_extract'' ''h2'' ''{reindex}'' None (Some 3)
       = [DeleteMessage ''q_extract'' ''h2'']"
proof -
  let ?rm = "\<lparr> receiptHandle = ''h2'', rawBody = ''{reindex}'', parsed = None,
      messageId = Some ''m2'', approximateReceiveCount = Some (3::real) \<rparr>"
  have m: "?rm \<in> set (receiveMessages ex_parse ex_parseInt ex_response)"
    by (simp add: ex_received)
  have p: "ex_parse ''{reindex}'' = Some ex_not_envelope"
    by (simp add: ex_parse_def)
  have n: "\<not> isJobMessage ex_not_envelope"
    by (simp add: isJobMessage_def ex_not_envelope_def JOB_TYPES_def)
  have h: "ex_parse (rawBody ?rm) = None
      \<or> (\<exists>v. ex_parse (rawBody ?rm) = Some v \<and> \<not> isJobMessage v)"
    using p n by simp
  have "handleMessage ex_env ''q_extract'' (receiptHandle ?rm) (rawBody ?rm) (parsed ?rm)
      (approximateReceiveCount ?rm) = [DeleteMessage ''q_extract'' (receiptHandle ?rm)]"
    using C9_poison_message_deleted [OF m h, of ex_env "''q_extract''"] by (rule conjunct2 [THEN conjunct1])
  then have d: "handleMessage ex_env ''q_extract'' ''h2'' ''{reindex}'' None (Some 3)
      = [DeleteMessage ''q_extract'' ''h2'']"
    by simp
  show ?thesis
    using m p n d by (intro conjI)
qed

text \<open>For contrast: a well-formed envelope whose handler times out is retried.\<close>

lemma ex_retry:
  "handleMessage ex_env ''q_extract'' ''h3'' ''{envelope}'' (Some ex_envelope) (Some 1)
     = [InvokeHandler ''EXTRACT'' ex_envelope, ChangeVisibility ''q_extract'' ''h3'' 30]"
  by (simp add: handleMessage_def jobTypeOf_def ex_envelope_def ex_env_def handlerTable_def
      isRetryableError_def toLowerCase_def UPPER_def LOWER_def requeueSoon_def
      computeBackoffSeconds_def backoffBase_def)

subsection \<open>Extraction job: what each step leaves unchanged\<close>




lemma sameTables_llm: "sameTables w (w\<lparr> w_llm_calls := calls \<rparr>)"
  by (simp add: sameTables_def)














subsection \<open>Extraction job: claims\<close>



end
